theory Spec2Isabelle
  imports Main "HOL-Library.Sublist" "HOL-Library.AList"
begin

section \<open>JSON values and the Python operations the two scripts rely on\<close>

text \<open>
  Both scripts work on what \<^verbatim>\<open>json.load\<close> returns. A \<open>JObj\<close> lists the entries of a
  Python dict in insertion order (its keys are distinct); JSON numbers with a fraction are
  outside the model. A \<open>string\<close> stands for a Python \<^verbatim>\<open>str\<close> whose code points are below
  256, one \<open>char\<close> per code point, so that \<open>length\<close> is Python's \<^verbatim>\<open>len\<close>.
\<close>

datatype json =
    JNull
  | JBool bool
  | JInt int
  | JStr string
  | JArr "json list"
  | JObj "(string \<times> json) list"

datatype py_error =
    KeyError
  | IndexError
  | TypeError
  | AttributeError
  | ValidationError
  | FileNotFoundError

text \<open>An exception ends the statement sequence: \<open>bindE\<close> runs the rest only on a value.\<close>

fun bindE :: "'e + 'a \<Rightarrow> ('a \<Rightarrow> 'e + 'b) \<Rightarrow> 'e + 'b" where
  "bindE (Inl e) f = Inl e"
| "bindE (Inr x) f = f x"

text \<open>A \<^verbatim>\<open>for\<close> loop that appends one result per item and stops at the first exception.\<close>

fun mapE :: "('a \<Rightarrow> 'e + 'b) \<Rightarrow> 'a list \<Rightarrow> 'e + 'b list" where
  "mapE f [] = Inr []"
| "mapE f (x # xs) = bindE (f x) (\<lambda>y. bindE (mapE f xs) (\<lambda>ys. Inr (y # ys)))"

abbreviation NL :: string where
  "NL \<equiv> [CHR 0x0A]"

abbreviation BSL :: char where
  "BSL \<equiv> CHR 0x5C"

abbreviation SQUOTE :: char where
  "SQUOTE \<equiv> CHR 0x27"

abbreviation DQUOTE :: char where
  "DQUOTE \<equiv> CHR 0x22"

definition sp :: "nat \<Rightarrow> string" where
  "sp n = replicate n (CHR '' '')"

text \<open>\<^verbatim>\<open>sep.join(items)\<close>\<close>

fun join :: "string \<Rightarrow> string list \<Rightarrow> string" where
  "join sep [] = []"
| "join sep [x] = x"
| "join sep (x # y # ys) = x @ sep @ join sep (y # ys)"

text \<open>\<^verbatim>\<open>obj[key]\<close> with a string key: only a dict accepts it.\<close>

fun subscript :: "json \<Rightarrow> string \<Rightarrow> py_error + json" where
  "subscript (JObj kvs) k = (case map_of kvs k of None \<Rightarrow> Inl KeyError | Some v \<Rightarrow> Inr v)"
| "subscript JNull k = Inl TypeError"
| "subscript (JBool b) k = Inl TypeError"
| "subscript (JInt i) k = Inl TypeError"
| "subscript (JStr s) k = Inl TypeError"
| "subscript (JArr xs) k = Inl TypeError"

text \<open>\<^verbatim>\<open>obj[0]\<close>\<close>

fun subscript0 :: "json \<Rightarrow> py_error + json" where
  "subscript0 (JArr xs) = (case xs of [] \<Rightarrow> Inl IndexError | x # _ \<Rightarrow> Inr x)"
| "subscript0 (JStr s) = (case s of [] \<Rightarrow> Inl IndexError | c # _ \<Rightarrow> Inr (JStr [c]))"
| "subscript0 (JObj kvs) = Inl KeyError"
| "subscript0 JNull = Inl TypeError"
| "subscript0 (JBool b) = Inl TypeError"
| "subscript0 (JInt i) = Inl TypeError"

text \<open>\<^verbatim>\<open>xs[i]\<close> on a Python list with \<open>i \<ge> 0\<close>\<close>

definition list_index :: "'a list \<Rightarrow> nat \<Rightarrow> py_error + 'a" where
  "list_index xs i = (if i < length xs then Inr (xs ! i) else Inl IndexError)"

text \<open>The items a \<^verbatim>\<open>for\<close> loop sees: a dict yields its keys, a string its characters.\<close>

fun py_iter :: "json \<Rightarrow> py_error + json list" where
  "py_iter (JArr xs) = Inr xs"
| "py_iter (JObj kvs) = Inr (map (\<lambda>kv. JStr (fst kv)) kvs)"
| "py_iter (JStr s) = Inr (map (\<lambda>c. JStr [c]) s)"
| "py_iter JNull = Inl TypeError"
| "py_iter (JBool b) = Inl TypeError"
| "py_iter (JInt i) = Inl TypeError"

text \<open>\<^verbatim>\<open>len(obj)\<close>\<close>

fun py_len :: "json \<Rightarrow> py_error + nat" where
  "py_len (JArr xs) = Inr (length xs)"
| "py_len (JObj kvs) = Inr (length kvs)"
| "py_len (JStr s) = Inr (length s)"
| "py_len JNull = Inl TypeError"
| "py_len (JBool b) = Inl TypeError"
| "py_len (JInt i) = Inl TypeError"

text \<open>\<^verbatim>\<open>key in obj\<close> for a string key\<close>

fun py_contains :: "string \<Rightarrow> json \<Rightarrow> py_error + bool" where
  "py_contains k (JObj kvs) = Inr (k \<in> set (map fst kvs))"
| "py_contains k (JArr xs) = Inr (JStr k \<in> set xs)"
| "py_contains k (JStr s) = Inr (sublist k s)"
| "py_contains k JNull = Inl TypeError"
| "py_contains k (JBool b) = Inl TypeError"
| "py_contains k (JInt i) = Inl TypeError"

subsection \<open>\<^verbatim>\<open>str\<close>, \<^verbatim>\<open>repr\<close> and f-string interpolation\<close>

fun dec_nat :: "nat \<Rightarrow> string" where
  "dec_nat n = (if n < 10 then [char_of (48 + n)]
                else dec_nat (n div 10) @ [char_of (48 + n mod 10)])"

declare dec_nat.simps [simp del]

definition dec_int :: "int \<Rightarrow> string" where
  "dec_int i = (if i < 0 then CHR ''-'' # dec_nat (nat (- i)) else dec_nat (nat i))"

definition hex_digit :: "nat \<Rightarrow> char" where
  "hex_digit n = (if n < 10 then char_of (48 + n) else char_of (87 + n))"

definition py_printable :: "char \<Rightarrow> bool" where
  "py_printable c = (let n = (of_char c :: nat) in \<not> (n < 32 \<or> (127 \<le> n \<and> n \<le> 160) \<or> n = 173))"

definition repr_char :: "char \<Rightarrow> char \<Rightarrow> string" where
  "repr_char q c =
     (if c = q \<or> c = BSL then [BSL, c]
      else if c = CHR 0x09 then [BSL, CHR ''t'']
      else if c = CHR 0x0A then [BSL, CHR ''n'']
      else if c = CHR 0x0D then [BSL, CHR ''r'']
      else if \<not> py_printable c
        then [BSL, CHR ''x'', hex_digit (of_char c div 16), hex_digit (of_char c mod 16)]
      else [c])"

definition py_repr_str :: "string \<Rightarrow> string" where
  "py_repr_str s =
     (let q = (if SQUOTE \<in> set s \<and> DQUOTE \<notin> set s then DQUOTE else SQUOTE)
      in q # concat (map (repr_char q) s) @ [q])"

fun py_repr :: "json \<Rightarrow> string" where
  "py_repr JNull = ''None''"
| "py_repr (JBool b) = (if b then ''True'' else ''False'')"
| "py_repr (JInt i) = dec_int i"
| "py_repr (JStr s) = py_repr_str s"
| "py_repr (JArr xs) = ''['' @ join '', '' (map py_repr xs) @ '']''"
| "py_repr (JObj kvs) =
     ''{'' @ join '', '' (map (\<lambda>kv. py_repr_str (fst kv) @ '': '' @ py_repr (snd kv)) kvs) @ ''}''"

text \<open>\<^verbatim>\<open>str(v)\<close>, which is also what \<^verbatim>\<open>f"{v}"\<close> interpolates.\<close>

fun py_str :: "json \<Rightarrow> string" where
  "py_str (JStr s) = s"
| "py_str v = py_repr v"

text \<open>\<^verbatim>\<open>json.dumps(v)\<close> with its defaults (\<^verbatim>\<open>ensure_ascii=True\<close>).\<close>

definition dumps_char :: "char \<Rightarrow> string" where
  "dumps_char c =
     (if c = DQUOTE then [BSL, DQUOTE]
      else if c = BSL then [BSL, BSL]
      else if c = CHR 0x0A then [BSL, CHR ''n'']
      else if c = CHR 0x0D then [BSL, CHR ''r'']
      else if c = CHR 0x09 then [BSL, CHR ''t'']
      else if c = CHR 0x08 then [BSL, CHR ''b'']
      else if c = CHR 0x0C then [BSL, CHR ''f'']
      else if (of_char c :: nat) < 32 \<or> 126 < (of_char c :: nat)
        then [BSL, CHR ''u'', CHR ''0'', CHR ''0'',
              hex_digit (of_char c div 16), hex_digit (of_char c mod 16)]
      else [c])"

definition dumps_str :: "string \<Rightarrow> string" where
  "dumps_str s = DQUOTE # concat (map dumps_char s) @ [DQUOTE]"

fun json_dumps :: "json \<Rightarrow> string" where
  "json_dumps JNull = ''null''"
| "json_dumps (JBool b) = (if b then ''true'' else ''false'')"
| "json_dumps (JInt i) = dec_int i"
| "json_dumps (JStr s) = dumps_str s"
| "json_dumps (JArr xs) = ''['' @ join '', '' (map json_dumps xs) @ '']''"
| "json_dumps (JObj kvs) =
     ''{'' @ join '', '' (map (\<lambda>kv. dumps_str (fst kv) @ '': '' @ json_dumps (snd kv)) kvs) @ ''}''"

text \<open>String methods on a JSON value: anything but a \<^verbatim>\<open>str\<close> has no such attribute.\<close>

definition str_replace_quote :: "json \<Rightarrow> py_error + string" where
  \<comment> \<open>\<^verbatim>\<open>v.replace("'", "")\<close>\<close>
  "str_replace_quote v =
     (case v of JStr s \<Rightarrow> Inr (filter (\<lambda>c. c \<noteq> SQUOTE) s) | _ \<Rightarrow> Inl AttributeError)"

definition lower_char :: "char \<Rightarrow> char" where
  "lower_char c =
     (let n = (of_char c :: nat)
      in if (65 \<le> n \<and> n \<le> 90) \<or> (192 \<le> n \<and> n \<le> 214) \<or> (216 \<le> n \<and> n \<le> 222)
         then char_of (n + 32) else c)"

definition str_lower :: "json \<Rightarrow> py_error + string" where
  \<comment> \<open>\<^verbatim>\<open>v.lower()\<close>\<close>
  "str_lower v = (case v of JStr s \<Rightarrow> Inr (map lower_char s) | _ \<Rightarrow> Inl AttributeError)"

definition replace_space :: "string \<Rightarrow> string" where
  \<comment> \<open>\<^verbatim>\<open>s.replace(' ', '_')\<close>\<close>
  "replace_space s = map (\<lambda>c. if c = CHR '' '' then CHR ''_'' else c) s"

section \<open>The Normalizer: \<^verbatim>\<open>scripts/preprocess.py\<close>\<close>

definition MAX_CHARS :: nat where
  "MAX_CHARS = 2048"

text \<open>One constructor per \<^verbatim>\<open>logger.warning\<close> call, carrying the values its message shows.\<close>

datatype warning =
    TextTruncated nat nat
  | ChecklistTooLong
  | CollectionExists nat
  | Upserting nat

subsection \<open>Helper functions\<close>

text \<open>
  \<^verbatim>\<open>r'<[^>]+>'\<close> tried at the start of a text: a \<^verbatim>\<open><\<close>, one or more characters other than
  \<^verbatim>\<open>>\<close> (taken greedily, none of them can be given back to any effect), then \<^verbatim>\<open>>\<close>. The
  result is the text after the match.
\<close>

definition match_tag :: "string \<Rightarrow> string option" where
  "match_tag t =
     (case t of
        [] \<Rightarrow> None
      | c # cs \<Rightarrow>
          if c = CHR ''<'' \<and> takeWhile (\<lambda>x. x \<noteq> CHR ''>'') cs \<noteq> []
             \<and> dropWhile (\<lambda>x. x \<noteq> CHR ''>'') cs \<noteq> []
          then Some (tl (dropWhile (\<lambda>x. x \<noteq> CHR ''>'') cs))
          else None)"

text \<open>\<^verbatim>\<open>re.sub(r'<[^>]+>', '', text)\<close>: scan left to right, drop each match, keep the rest.\<close>

function re_sub_tags :: "string \<Rightarrow> string" where
  "re_sub_tags [] = []"
| "re_sub_tags (c # cs) =
     (case match_tag (c # cs) of
        Some rest \<Rightarrow> re_sub_tags rest
      | None \<Rightarrow> c # re_sub_tags cs)"
  by pat_completeness auto
termination
proof (relation "measure length")
  fix c :: char and cs rest :: string
  assume m: "match_tag (c # cs) = Some rest"
  have "length (dropWhile (\<lambda>x. x \<noteq> CHR ''>'') cs) \<le> length cs"
    by (rule length_dropWhile_le)
  with m show "(rest, c # cs) \<in> measure length"
    by (auto simp: match_tag_def split: if_splits)
qed auto

definition clean_html :: "json \<Rightarrow> py_error + string" where
  "clean_html text = (case text of JStr s \<Rightarrow> Inr (re_sub_tags s) | _ \<Rightarrow> Inl TypeError)"

text \<open>
  \<^verbatim>\<open>re.findall(r"'([^']*)'", text)\<close>: from a quote, the group runs to the next quote, which
  must exist; the search resumes after that closing quote.
\<close>

function re_findall_quoted :: "string \<Rightarrow> string list" where
  "re_findall_quoted [] = []"
| "re_findall_quoted (c # cs) =
     (if c = SQUOTE \<and> dropWhile (\<lambda>x. x \<noteq> SQUOTE) cs \<noteq> []
      then takeWhile (\<lambda>x. x \<noteq> SQUOTE) cs
             # re_findall_quoted (tl (dropWhile (\<lambda>x. x \<noteq> SQUOTE) cs))
      else re_findall_quoted cs)"
  by pat_completeness auto
termination
proof (relation "measure length")
  fix c :: char and cs :: string
  have "length (dropWhile (\<lambda>x. x \<noteq> SQUOTE) cs) \<le> length cs"
    by (rule length_dropWhile_le)
  then show "(tl (dropWhile (\<lambda>x. x \<noteq> SQUOTE) cs), c # cs) \<in> measure length"
    by simp
qed auto

definition parse_quoted_list :: "json \<Rightarrow> py_error + string list" where
  "parse_quoted_list text =
     (case text of JStr s \<Rightarrow> Inr (re_findall_quoted s) | _ \<Rightarrow> Inl TypeError)"

definition truncate_if_needed :: "string \<Rightarrow> nat \<Rightarrow> string \<times> warning list" where
  "truncate_if_needed text max_chars =
     (if length text \<le> max_chars then (text, [])
      else (take max_chars text, [TextTruncated (length text) max_chars]))"

subsection \<open>Module identity and file names\<close>

definition INPUT_JSON :: string where
  "INPUT_JSON = ''D:'' @ [BSL] @ ''BodhiLabs'' @ [BSL] @ ''Project'' @ [BSL] @ ''data'' @ [BSL]
     @ ''raw'' @ [BSL] @ ''urinary_catheterization_with_correctOptionText.json''"

definition OUTPUT_DIR :: string where
  "OUTPUT_DIR = ''D:'' @ [BSL] @ ''BodhiLabs'' @ [BSL] @ ''Project'' @ [BSL] @ ''data'' @ [BSL]
     @ ''preprocessed''"

definition output_file :: "json \<Rightarrow> string" where
  "output_file course_id = OUTPUT_DIR @ ''/processed_module_'' @ py_str course_id @ ''.json''"

subsection \<open>Competencies\<close>

definition competency_text :: "json \<Rightarrow> json \<Rightarrow> string \<Rightarrow> string list \<Rightarrow> string \<Rightarrow> string" where
  "competency_text area ctype defn learning_objectives activities =
     ''Competency: '' @ py_str area @ NL
     @ sp 20 @ ''Type: '' @ py_str ctype @ NL
     @ NL
     @ sp 20 @ ''Definition: '' @ defn @ NL
     @ NL
     @ sp 20 @ ''This competency assesses:'' @ NL
     @ sp 20 @ join NL (map (\<lambda>obj. ''- '' @ obj) (take 10 learning_objectives)) @ NL
     @ NL
     @ sp 20 @ ''Activities: '' @ activities"

text \<open>
  One pass of the first loop. The bindings follow the order in which the loop body reads the
  input; a key read a second time is bound once.
\<close>

definition render_competency :: "json \<Rightarrow> json \<Rightarrow> json \<Rightarrow> json \<Rightarrow> py_error + (json \<times> warning list)" where
  "render_competency module_fields course_id module_name comp_group =
     bindE (subscript comp_group ''competency'') (\<lambda>competency.
     bindE (subscript comp_group ''question'') (\<lambda>questions.
     bindE (bindE (subscript questions ''question_ids'') parse_quoted_list) (\<lambda>question_ids.
     bindE (bindE (subscript questions ''question_id_competency_definition'') parse_quoted_list)
       (\<lambda>learning_objectives.
     bindE (subscript competency ''module_compentency_area'') (\<lambda>area.
     bindE (subscript competency ''competency_type'') (\<lambda>ctype.
     bindE (bindE (subscript competency ''module_competency_definition'') clean_html) (\<lambda>defn.
     bindE (bindE (subscript competency ''activity_names'') str_replace_quote) (\<lambda>activities.
     bindE (subscript competency ''competency_id'') (\<lambda>competency_id.
     bindE (subscript module_fields ''module_domain'') (\<lambda>module_domain.
       let (embed_text, ws) =
             truncate_if_needed
               (competency_text area ctype defn learning_objectives activities) MAX_CHARS;
           metadata = JObj
             [(''doc_type'', JStr ''competency''),
              (''competency_id'', competency_id),
              (''competency_type'', ctype),
              (''module_compentency_area'', area),
              (''module_competency_definition'', JStr defn),
              (''activity_names'', JStr activities),
              (''question_ids'', JStr (json_dumps (JArr (map JStr question_ids)))),
              (''question_count'', JInt (int (length question_ids))),
              (''course_id'', course_id),
              (''competency_name'', module_name),
              (''module_domain'', module_domain)]
       in Inr (JObj [(''id'', competency_id),
                     (''embedding_text'', JStr embed_text),
                     (''metadata'', metadata)], ws)))))))))))"

subsection \<open>MCQ questions\<close>

definition mcq_text :: "string \<Rightarrow> string \<Rightarrow> string \<Rightarrow> string \<Rightarrow> json \<Rightarrow> json \<Rightarrow> string" where
  "mcq_text question_text correct_option learning_objective options area ctype =
     ''Question: '' @ question_text @ NL
     @ sp 24 @ ''Correct Answer: '' @ correct_option @ NL
     @ sp 24 @ ''Learning Objective: '' @ learning_objective @ NL
     @ sp 24 @ ''All Options: '' @ options @ NL
     @ sp 24 @ ''Competency: '' @ py_str area @ '' ('' @ py_str ctype @ '')''"

text \<open>\<^verbatim>\<open>enumerate(xs)\<close>\<close>

definition enumerate_from0 :: "'a list \<Rightarrow> (nat \<times> 'a) list" where
  "enumerate_from0 xs = zip [0..<length xs] xs"

text \<open>The body of the inner loop, for index \<open>i\<close> and question id \<open>qid\<close>.\<close>

definition render_mcq ::
  "json \<Rightarrow> json \<Rightarrow> json \<Rightarrow> json \<Rightarrow> string list \<Rightarrow> string list \<Rightarrow> string list \<Rightarrow> string list
     \<Rightarrow> nat \<times> string \<Rightarrow> py_error + (json \<times> warning list)" where
  "render_mcq module_fields course_id module_name competency
       question_texts correct_options learning_objectives all_options iq =
     (let i = fst iq; qid = snd iq in
     bindE (list_index question_texts i) (\<lambda>question_text.
     bindE (list_index correct_options i) (\<lambda>correct_option.
     bindE (list_index learning_objectives i) (\<lambda>learning_objective.
     bindE (list_index all_options i) (\<lambda>options.
     bindE (subscript competency ''module_compentency_area'') (\<lambda>area.
     bindE (subscript competency ''competency_type'') (\<lambda>ctype.
     bindE (subscript competency ''competency_id'') (\<lambda>competency_id.
     bindE (subscript module_fields ''module_domain'') (\<lambda>module_domain.
       let (embed_text, ws) =
             truncate_if_needed
               (mcq_text question_text correct_option learning_objective options area ctype)
               MAX_CHARS;
           metadata = JObj
             [(''doc_type'', JStr ''mcq''),
              (''question_id'', JStr qid),
              (''question_text'', JStr question_text),
              (''options_text'', JStr options),
              (''correct_option_text'', JStr correct_option),
              (''question_id_competency_definition'', JStr learning_objective),
              (''competency_id'', competency_id),
              (''competency_type'', ctype),
              (''module_compentency_area'', area),
              (''course_id'', course_id),
              (''competency_name'', module_name),
              (''module_domain'', module_domain)]
       in Inr (JObj [(''id'', JStr qid),
                     (''embedding_text'', JStr embed_text),
                     (''metadata'', metadata)], ws))))))))))"

text \<open>One pass of the outer loop of the second section: the records of one group.\<close>

definition render_mcq_group ::
  "json \<Rightarrow> json \<Rightarrow> json \<Rightarrow> json \<Rightarrow> py_error + (json \<times> warning list) list" where
  "render_mcq_group module_fields course_id module_name comp_group =
     bindE (subscript comp_group ''competency'') (\<lambda>competency.
     bindE (subscript comp_group ''question'') (\<lambda>questions.
     bindE (bindE (subscript questions ''question_ids'') parse_quoted_list) (\<lambda>question_ids.
     bindE (bindE (subscript questions ''question_texts'') parse_quoted_list) (\<lambda>question_texts.
     bindE (bindE (subscript questions ''correct_options_texts'') parse_quoted_list)
       (\<lambda>correct_options.
     bindE (bindE (subscript questions ''question_id_competency_definition'') parse_quoted_list)
       (\<lambda>learning_objectives.
     bindE (bindE (subscript questions ''options_texts'') parse_quoted_list) (\<lambda>all_options.
       mapE (render_mcq module_fields course_id module_name competency
               question_texts correct_options learning_objectives all_options)
            (enumerate_from0 question_ids))))))))"

subsection \<open>Checklists\<close>

definition checklist_text_full :: "json \<Rightarrow> nat \<Rightarrow> string \<Rightarrow> string" where
  "checklist_text_full question_text n steps_text =
     ''Procedural Checklist: '' @ py_str question_text @ NL
     @ sp 24 @ ''Competency: Procedural Skills (Skill)'' @ NL
     @ sp 24 @ ''Correct sequence ('' @ dec_nat n @ '' steps):'' @ NL
     @ sp 24 @ steps_text"

definition checklist_text_short :: "json \<Rightarrow> string \<Rightarrow> string" where
  "checklist_text_short question_text steps_text =
     ''Procedural Checklist: '' @ py_str question_text @ NL
     @ sp 28 @ ''Steps:'' @ NL
     @ sp 28 @ steps_text"

definition checklist_embed_text :: "json \<Rightarrow> nat \<Rightarrow> string \<Rightarrow> string \<times> warning list" where
  "checklist_embed_text question_text n steps_text =
     (let embed_text = checklist_text_full question_text n steps_text;
          (embed_text, w1) =
             (if length embed_text > MAX_CHARS
              then (checklist_text_short question_text steps_text, [ChecklistTooLong])
              else (embed_text, []));
          (embed_text, w2) = truncate_if_needed embed_text MAX_CHARS
      in (embed_text, w1 @ w2))"

definition step_line :: "json \<Rightarrow> py_error + string" where
  "step_line step =
     bindE (subscript step ''option_sequence'') (\<lambda>option_sequence.
     bindE (subscript step ''option_text'') (\<lambda>option_text.
       Inr (py_str option_sequence @ ''. '' @ py_str option_text)))"

definition step_metadata :: "json \<Rightarrow> py_error + json" where
  "step_metadata step =
     bindE (subscript step ''option_sequence'') (\<lambda>option_sequence.
     bindE (subscript step ''option_text'') (\<lambda>option_text.
       Inr (JObj [(''step_number'', option_sequence), (''step_text'', option_text)])))"

definition render_checklist :: "json \<Rightarrow> json \<Rightarrow> json \<Rightarrow> json \<Rightarrow> py_error + (json \<times> warning list)" where
  "render_checklist module_fields course_id module_name checklist =
     bindE (subscript checklist ''question'') (\<lambda>question.
     bindE (subscript checklist ''option'') (\<lambda>steps.
     bindE (py_iter steps) (\<lambda>step_items.
     bindE (mapE step_line step_items) (\<lambda>step_lines.
     bindE (subscript question ''question_text'') (\<lambda>question_text.
     bindE (py_len steps) (\<lambda>n.
     bindE (mapE step_metadata step_items) (\<lambda>steps_metadata.
     bindE (subscript question ''question_id'') (\<lambda>question_id.
     bindE (subscript module_fields ''module_domain'') (\<lambda>module_domain.
       let (embed_text, ws) = checklist_embed_text question_text n (join NL step_lines);
           metadata = JObj
             [(''doc_type'', JStr ''checklist''),
              (''question_id'', JStr (py_str question_id)),
              (''question_text'', question_text),
              (''total_steps'', JInt (int n)),
              (''steps'', JStr (json_dumps (JArr steps_metadata))),
              (''competency_type'', JStr ''Skill''),
              (''course_id'', course_id),
              (''competency_name'', module_name),
              (''module_domain'', module_domain)]
       in Inr (JObj [(''id'', question_id),
                     (''embedding_text'', JStr embed_text),
                     (''metadata'', metadata)], ws))))))))))"

subsection \<open>The script\<close>

text \<open>
  The script body on the parsed input: the name of the output file, the bundle written to it
  and the warnings logged, or the exception that ended the run (the log of such a run is not
  kept; lines logged at level \<^verbatim>\<open>info\<close> are left out altogether). \<^verbatim>\<open>raw_data[0]\<close> is read
  once here; the script reads it again at each use, with the same result.
\<close>

definition preprocess :: "json \<Rightarrow> py_error + (string \<times> json \<times> warning list)" where
  "preprocess raw_data =
     bindE (subscript0 raw_data) (\<lambda>top.
     bindE (subscript top ''key_module_field'') (\<lambda>module_fields.
     bindE (subscript module_fields ''course_id'') (\<lambda>course_id.
     bindE (subscript module_fields ''competency_name'') (\<lambda>module_name.
     bindE (bindE (subscript top ''question_type_mcq'') py_iter) (\<lambda>groups.
     bindE (mapE (render_competency module_fields course_id module_name) groups)
       (\<lambda>competencies.
     bindE (mapE (render_mcq_group module_fields course_id module_name) groups)
       (\<lambda>mcq_groups.
     bindE (py_contains ''question_type_checklist'' top) (\<lambda>has_checklists.
     bindE (if has_checklists
            then bindE (bindE (subscript top ''question_type_checklist'') py_iter)
                   (mapE (render_checklist module_fields course_id module_name))
            else Inr [])
       (\<lambda>checklists.
       let mcqs = concat mcq_groups;
           processed_data = JObj
             [(''module_info'', module_fields),
              (''competencies'', JArr (map fst competencies)),
              (''mcqs'', JArr (map fst mcqs)),
              (''checklists'', JArr (map fst checklists)),
              (''total_vectors'',
                 JInt (int (length competencies + length mcqs + length checklists)))]
       in Inr (output_file course_id, processed_data,
               concat (map snd competencies) @ concat (map snd mcqs)
                 @ concat (map snd checklists)))))))))))"

text \<open>
  The files the scripts read and write, by path, each holding a JSON document. A run that
  ends in an exception leaves them as they were: the output file is written last. The
  files have no directories, and the write itself is taken to go through: a course id whose
  text is no file name (one holding a \<^verbatim>\<open>/\<close>, say) makes \<^verbatim>\<open>open\<close> fail in a way that
  depends on the platform, and is outside what is modelled here.
\<close>

type_synonym files = "string \<Rightarrow> json option"

definition preprocess_main :: "files \<Rightarrow> files \<times> (py_error + warning list)" where
  "preprocess_main fs =
     (case fs INPUT_JSON of
        None \<Rightarrow> (fs, Inl FileNotFoundError)
      | Some raw_data \<Rightarrow>
          (case preprocess raw_data of
             Inl e \<Rightarrow> (fs, Inl e)
           | Inr (path, processed_data, ws) \<Rightarrow> (fs(path \<mapsto> processed_data), Inr ws)))"

section \<open>The Loader: \<^verbatim>\<open>scripts/build_vectorstore.py\<close>\<close>

definition PROCESSED_JSON :: string where
  "PROCESSED_JSON = ''D:'' @ [BSL] @ ''BodhiLabs'' @ [BSL] @ ''Project'' @ [BSL] @ ''data'' @ [BSL]
     @ ''preprocessed'' @ [BSL] @ ''processed_module_341.json''"

text \<open>
  The path is fixed in the script; it names the bundle of course 341.

  langchain's \<^verbatim>\<open>Document\<close> is a typed container, \<^verbatim>\<open>page_content\<close> a \<^verbatim>\<open>str\<close> and
  \<^verbatim>\<open>metadata\<close> a dict; its constructor rejects other values.
\<close>

record document =
  page_content :: string
  metadata :: "(string \<times> json) list"

definition Document :: "json \<Rightarrow> json \<Rightarrow> py_error + document" where
  "Document content meta =
     (case content of
        JStr s \<Rightarrow>
          (case meta of
             JObj kvs \<Rightarrow> Inr \<lparr>page_content = s, metadata = kvs\<rparr>
           | _ \<Rightarrow> Inl ValidationError)
      | _ \<Rightarrow> Inl ValidationError)"

definition collection_name_of :: "json \<Rightarrow> py_error + string" where
  "collection_name_of module_info =
     bindE (subscript module_info ''course_id'') (\<lambda>course_id.
     bindE (bindE (subscript module_info ''competency_name'') str_lower) (\<lambda>lowered.
       Inr (''module_'' @ py_str course_id @ ''_'' @ replace_space lowered)))"

text \<open>The body shared by the three loops: one document and one id per record.\<close>

definition load_record :: "json \<Rightarrow> py_error + (document \<times> string)" where
  "load_record r =
     bindE (subscript r ''embedding_text'') (\<lambda>embedding_text.
     bindE (subscript r ''metadata'') (\<lambda>meta.
     bindE (Document embedding_text meta) (\<lambda>doc.
     bindE (subscript r ''id'') (\<lambda>record_id.
       Inr (doc, py_str record_id)))))"

definition load_module_documents ::
  "files \<Rightarrow> string \<Rightarrow> py_error + (document list \<times> string list \<times> string)" where
  "load_module_documents fs json_path =
     (case fs json_path of
        None \<Rightarrow> Inl FileNotFoundError
      | Some data \<Rightarrow>
          bindE (subscript data ''module_info'') (\<lambda>module_info.
          bindE (collection_name_of module_info) (\<lambda>collection_name.
          bindE (bindE (bindE (subscript data ''competencies'') py_iter) (mapE load_record))
            (\<lambda>comps.
          bindE (bindE (bindE (subscript data ''mcqs'') py_iter) (mapE load_record))
            (\<lambda>mcqs.
          bindE (bindE (bindE (subscript data ''checklists'') py_iter) (mapE load_record))
            (\<lambda>checklists.
            Inr (map fst (comps @ mcqs @ checklists),
                 map snd (comps @ mcqs @ checklists),
                 collection_name)))))))"

subsection \<open>The vector store\<close>

text \<open>
  The vector store (Chroma, reached through langchain) and the embedding model are external
  collaborators; their code is not part of the repository. The embedding model is an opaque
  function \<open>embeddings\<close> from text to vector. A collection is the list of its entries, each
  under its id: the vector, the text and the metadata.
\<close>

type_synonym 'v entry = "'v \<times> string \<times> (string \<times> json) list"

type_synonym 'v collection = "(string \<times> 'v entry) list"

text \<open>Modelled from the spec: the store's \<^verbatim>\<open>count()\<close>, the number of entries.\<close>

definition collection_count :: "'v collection \<Rightarrow> nat" where
  "collection_count c = length c"

text \<open>Modelled from the spec: the content stored under an id, if there is any.\<close>

definition collection_get :: "'v collection \<Rightarrow> string \<Rightarrow> 'v entry option" where
  "collection_get c k = map_of c k"

text \<open>
  Modelled from the spec: the store's upsert, missing from the sources, for one record. The
  spec's contract: "if \<^verbatim>\<open>id\<close> already exists in the collection, its vector and metadata are
  fully replaced; if not, a new entry is created."
\<close>

definition upsert :: "string \<Rightarrow> 'v entry \<Rightarrow> 'v collection \<Rightarrow> 'v collection" where
  "upsert k e c = AList.update k e c"

text \<open>
  Modelled from the spec: \<^verbatim>\<open>vectorstore.add_documents(documents=documents, ids=ids)\<close>, a
  library call missing from the sources. It embeds the text of each document and submits
  text, metadata and id to the upsert, record by record in the order given.
\<close>

definition add_documents ::
  "(string \<Rightarrow> 'v) \<Rightarrow> 'v collection \<Rightarrow> document list \<Rightarrow> string list \<Rightarrow> 'v collection" where
  "add_documents embeddings c documents ids =
     fold (\<lambda>di. upsert (snd di) (embeddings (page_content (fst di)), page_content (fst di),
                                  metadata (fst di)))
          (zip documents ids) c"

subsection \<open>The script\<close>

text \<open>
  The persisted collections by name; a name not yet used holds the empty collection, which
  is what opening it creates.
\<close>

type_synonym 'v chroma = "string \<Rightarrow> 'v collection"

definition build_vectorstore ::
  "(string \<Rightarrow> 'v) \<Rightarrow> files \<Rightarrow> 'v chroma \<Rightarrow> py_error + ('v chroma \<times> warning list)" where
  "build_vectorstore embeddings fs chroma =
     bindE (load_module_documents fs PROCESSED_JSON) (\<lambda>loaded.
       let documents = fst loaded; ids = fst (snd loaded); collection_name = snd (snd loaded);
           vectorstore = chroma collection_name;
           existing_count = collection_count vectorstore;
           ws = (if existing_count > 0
                 then [CollectionExists existing_count, Upserting (length documents)]
                 else [])
       in Inr (chroma(collection_name := add_documents embeddings vectorstore documents ids), ws))"

section \<open>Notions used to state the properties\<close>

text \<open>\<^verbatim>\<open>re.search(r'<[^>]+>', text)\<close> finds a match: the text holds a tag span.\<close>

fun has_tag :: "string \<Rightarrow> bool" where
  "has_tag [] = False"
| "has_tag (c # cs) = (match_tag (c # cs) \<noteq> None \<or> has_tag cs)"

text \<open>
  A marked-up text: stretches of plain text, each followed by a tag with the given body, and
  a final stretch of plain text.
\<close>

definition markup :: "(string \<times> string) list \<Rightarrow> string \<Rightarrow> string" where
  "markup pieces final =
     concat (map (\<lambda>p. fst p @ ''<'' @ snd p @ ''>'') pieces) @ final"

text \<open>An item wrapped in single quotes, as the string-encoded lists of the export hold it.\<close>

definition quoted :: "string \<Rightarrow> string" where
  "quoted x = SQUOTE # x @ [SQUOTE]"

text \<open>
  A text seen as the quoted-list extraction sees it: stretches of quote-free text, each
  followed by an item in quotes, and a final stretch; and the number of quotes in a text.
\<close>

definition quoted_text :: "(string \<times> string) list \<Rightarrow> string \<Rightarrow> string" where
  "quoted_text items final = concat (map (\<lambda>p. fst p @ quoted (snd p)) items) @ final"

definition quote_count :: "string \<Rightarrow> nat" where
  "quote_count t = length (filter (\<lambda>c. c = SQUOTE) t)"

text \<open>
  What a raw export holds: its competency groups, the questions of one group (the ids listed
  in its \<^verbatim>\<open>question_ids\<close> string) and its checklist groups, none when that section is
  absent.
\<close>

definition competency_groups :: "json \<Rightarrow> json list" where
  "competency_groups raw_data =
     (case bindE (bindE (subscript0 raw_data) (\<lambda>top. subscript top ''question_type_mcq''))
             py_iter of
        Inr groups \<Rightarrow> groups
      | Inl e \<Rightarrow> [])"

definition group_question_count :: "json \<Rightarrow> nat" where
  "group_question_count comp_group =
     (case bindE (bindE (subscript comp_group ''question'')
                    (\<lambda>questions. subscript questions ''question_ids'')) parse_quoted_list of
        Inr question_ids \<Rightarrow> length question_ids
      | Inl e \<Rightarrow> 0)"

definition checklist_groups :: "json \<Rightarrow> json list" where
  "checklist_groups raw_data =
     (case bindE (subscript0 raw_data) (\<lambda>top.
             bindE (py_contains ''question_type_checklist'' top) (\<lambda>present.
               if present then bindE (subscript top ''question_type_checklist'') py_iter
               else Inr [])) of
        Inr groups \<Rightarrow> groups
      | Inl e \<Rightarrow> [])"

text \<open>The kind a record carries in its metadata, and the records of a bundle in file order.\<close>

definition record_kind :: "json \<Rightarrow> py_error + json" where
  "record_kind r = bindE (subscript r ''metadata'') (\<lambda>meta. subscript meta ''doc_type'')"

definition bundle_section :: "json \<Rightarrow> string \<Rightarrow> json list" where
  "bundle_section bundle key =
     (case bindE (subscript bundle key) py_iter of Inr records \<Rightarrow> records | Inl e \<Rightarrow> [])"

definition bundle_records :: "json \<Rightarrow> json list" where
  "bundle_records bundle =
     bundle_section bundle ''competencies'' @ bundle_section bundle ''mcqs''
       @ bundle_section bundle ''checklists''"


subsection \<open>A small module: one competency with three questions, one checklist of four steps\<close>

definition export_object :: "json \<Rightarrow> json list \<Rightarrow> json list \<Rightarrow> json" where
  "export_object module_fields groups checklists = JObj
     [(''key_module_field'', module_fields),
      (''question_type_mcq'', JArr groups),
      (''question_type_checklist'', JArr checklists)]"

definition raw_export :: "json \<Rightarrow> json list \<Rightarrow> json list \<Rightarrow> json" where
  "raw_export module_fields groups checklists =
     JArr [export_object module_fields groups checklists]"

definition example_module_fields :: json where
  "example_module_fields = JObj
     [(''course_id'', JInt 341),
      (''competency_name'', JStr ''Urinary Catheterization''),
      (''module_domain'', JStr ''Nursing'')]"

definition example_descriptor :: json where
  "example_descriptor = JObj
     [(''competency_id'', JInt 7),
      (''competency_type'', JStr ''Knowledge''),
      (''module_compentency_area'', JStr ''Asepsis''),
      (''module_competency_definition'', JStr ''<b>balloon</b> inflation''),
      (''activity_names'', JStr (quoted ''Quiz''))]"

definition example_questions :: "string list \<Rightarrow> string list \<Rightarrow> json" where
  "example_questions ids texts = JObj
     [(''question_ids'', JStr (join '', '' (map quoted ids))),
      (''question_texts'', JStr (join '', '' (map quoted texts))),
      (''correct_options_texts'', JStr (join '', '' (map quoted [''a'', ''b'', ''c'']))),
      (''question_id_competency_definition'',
         JStr (join '', '' (map quoted [''x'', ''y'', ''z'']))),
      (''options_texts'', JStr (join '', '' (map quoted [''a|b'', ''b|c'', ''c|d''])))]"

definition example_group :: "string list \<Rightarrow> string list \<Rightarrow> json" where
  "example_group ids texts = JObj
     [(''competency'', example_descriptor),
      (''question'', example_questions ids texts)]"

definition example_steps :: json where
  "example_steps = JArr
     [JObj [(''option_sequence'', JInt 1), (''option_text'', JStr ''Wash hands'')],
      JObj [(''option_sequence'', JInt 2), (''option_text'', JStr ''Open kit'')],
      JObj [(''option_sequence'', JInt 3), (''option_text'', JStr ''Clean'')],
      JObj [(''option_sequence'', JInt 4), (''option_text'', JStr ''Insert'')]]"

definition example_step_lines :: "string list" where
  "example_step_lines = [''1. Wash hands'', ''2. Open kit'', ''3. Clean'', ''4. Insert'']"

definition example_question :: "json \<Rightarrow> json" where
  "example_question question_text = JObj
     [(''question_id'', JInt 42),
      (''question_text'', question_text)]"

definition example_checklist_group :: "json \<Rightarrow> json" where
  "example_checklist_group question_text = JObj
     [(''question'', example_question question_text),
      (''option'', example_steps)]"

definition example_raw :: json where
  "example_raw =
     raw_export example_module_fields
       [example_group [''101'', ''102'', ''103''] [''A?'', ''B?'', ''C?'']]
       [example_checklist_group (JStr ''Insert catheter'')]"

text \<open>The same module with a third question id but only two question texts.\<close>

definition unequal_raw :: json where
  "unequal_raw =
     raw_export example_module_fields
       [example_group [''101'', ''102'', ''103''] [''A?'', ''B?'']]
       [example_checklist_group (JStr ''Insert catheter'')]"

text \<open>Exports whose module block lacks a key, and one without the block.\<close>

definition no_domain_fields :: json where
  "no_domain_fields = JObj
     [(''course_id'', JInt 341),
      (''competency_name'', JStr ''Urinary Catheterization'')]"

definition no_name_fields :: json where
  "no_name_fields = JObj
     [(''course_id'', JInt 341),
      (''module_domain'', JStr ''Nursing'')]"

definition no_block_object :: json where
  "no_block_object = JObj [(''question_type_mcq'', JArr [])]"

definition no_block_raw :: json where
  "no_block_raw = JArr [no_block_object]"

definition empty_bundle :: "json \<Rightarrow> json" where
  "empty_bundle module_fields = JObj
     [(''module_info'', module_fields),
      (''competencies'', JArr []),
      (''mcqs'', JArr []),
      (''checklists'', JArr []),
      (''total_vectors'', JInt 0)]"

definition example_mcq :: "string \<Rightarrow> string \<Rightarrow> string \<Rightarrow> string \<Rightarrow> string \<Rightarrow> json" where
  "example_mcq qid question_text options correct_option learning_objective =
     JObj
       [(''id'', JStr qid),
        (''embedding_text'', JStr
           (''Question: '' @ question_text @ NL
            @ sp 24 @ ''Correct Answer: '' @ correct_option @ NL
            @ sp 24 @ ''Learning Objective: '' @ learning_objective @ NL
            @ sp 24 @ ''All Options: '' @ options @ NL
            @ sp 24 @ ''Competency: Asepsis (Knowledge)'')),
        (''metadata'', JObj
           [(''doc_type'', JStr ''mcq''),
            (''question_id'', JStr qid),
            (''question_text'', JStr question_text),
            (''options_text'', JStr options),
            (''correct_option_text'', JStr correct_option),
            (''question_id_competency_definition'', JStr learning_objective),
            (''competency_id'', JInt 7),
            (''competency_type'', JStr ''Knowledge''),
            (''module_compentency_area'', JStr ''Asepsis''),
            (''course_id'', JInt 341),
            (''competency_name'', JStr ''Urinary Catheterization''),
            (''module_domain'', JStr ''Nursing'')])]"

definition example_competency :: json where
  "example_competency = JObj
     [(''id'', JInt 7),
      (''embedding_text'', JStr
         (''Competency: Asepsis'' @ NL
          @ sp 20 @ ''Type: Knowledge'' @ NL
          @ NL
          @ sp 20 @ ''Definition: balloon inflation'' @ NL
          @ NL
          @ sp 20 @ ''This competency assesses:'' @ NL
          @ sp 20 @ ''- x'' @ NL @ ''- y'' @ NL @ ''- z'' @ NL
          @ NL
          @ sp 20 @ ''Activities: Quiz'')),
      (''metadata'', JObj
         [(''doc_type'', JStr ''competency''),
          (''competency_id'', JInt 7),
          (''competency_type'', JStr ''Knowledge''),
          (''module_compentency_area'', JStr ''Asepsis''),
          (''module_competency_definition'', JStr ''balloon inflation''),
          (''activity_names'', JStr ''Quiz''),
          (''question_ids'',
             JStr (json_dumps (JArr [JStr ''101'', JStr ''102'', JStr ''103'']))),
          (''question_count'', JInt 3),
          (''course_id'', JInt 341),
          (''competency_name'', JStr ''Urinary Catheterization''),
          (''module_domain'', JStr ''Nursing'')])]"

definition checklist_record :: "json \<Rightarrow> string \<Rightarrow> json" where
  "checklist_record question_text embedding_text = JObj
     [(''id'', JInt 42),
      (''embedding_text'', JStr embedding_text),
      (''metadata'', JObj
         [(''doc_type'', JStr ''checklist''),
          (''question_id'', JStr ''42''),
          (''question_text'', question_text),
          (''total_steps'', JInt 4),
          (''steps'', JStr (json_dumps (JArr
             [JObj [(''step_number'', JInt 1), (''step_text'', JStr ''Wash hands'')],
              JObj [(''step_number'', JInt 2), (''step_text'', JStr ''Open kit'')],
              JObj [(''step_number'', JInt 3), (''step_text'', JStr ''Clean'')],
              JObj [(''step_number'', JInt 4), (''step_text'', JStr ''Insert'')]]))),
          (''competency_type'', JStr ''Skill''),
          (''course_id'', JInt 341),
          (''competency_name'', JStr ''Urinary Catheterization''),
          (''module_domain'', JStr ''Nursing'')])]"

definition example_checklist :: json where
  "example_checklist =
     checklist_record (JStr ''Insert catheter'')
       (''Procedural Checklist: Insert catheter'' @ NL
        @ sp 24 @ ''Competency: Procedural Skills (Skill)'' @ NL
        @ sp 24 @ ''Correct sequence (4 steps):'' @ NL
        @ sp 24 @ ''1. Wash hands'' @ NL @ ''2. Open kit'' @ NL @ ''3. Clean'' @ NL
        @ ''4. Insert'')"

text \<open>A checklist whose question runs to 1900 characters.\<close>

definition long_question :: json where
  "long_question = JStr (replicate 1900 (CHR ''a''))"

definition long_checklist :: json where
  "long_checklist =
     checklist_record long_question
       (''Procedural Checklist: '' @ replicate 1900 (CHR ''a'') @ NL
        @ sp 28 @ ''Steps:'' @ NL
        @ sp 28 @ ''1. Wash hands'' @ NL @ ''2. Open kit'' @ NL @ ''3. Clean'' @ NL
        @ ''4. Insert'')"

definition example_bundle :: json where
  "example_bundle = JObj
     [(''module_info'', JObj
         [(''course_id'', JInt 341),
          (''competency_name'', JStr ''Urinary Catheterization''),
          (''module_domain'', JStr ''Nursing'')]),
      (''competencies'', JArr [example_competency]),
      (''mcqs'', JArr
         [example_mcq ''101'' ''A?'' ''a|b'' ''a'' ''x'',
          example_mcq ''102'' ''B?'' ''b|c'' ''b'' ''y'',
          example_mcq ''103'' ''C?'' ''c|d'' ''c'' ''z'']),
      (''checklists'', JArr [example_checklist]),
      (''total_vectors'', JInt 5)]"

text \<open>The files before a run of the Normalizer on a given raw export.\<close>

definition input_files :: "json \<Rightarrow> files" where
  "input_files raw_data = (\<lambda>path. if path = INPUT_JSON then Some raw_data else None)"

text \<open>The key under which the Loader submits a record: \<^verbatim>\<open>str(record['id'])\<close>.\<close>

definition record_key :: "json \<Rightarrow> py_error + string" where
  "record_key r = bindE (subscript r ''id'') (\<lambda>record_id. Inr (py_str record_id))"

text \<open>The document the Loader builds from a record.\<close>

definition record_document :: "json \<Rightarrow> py_error + document" where
  "record_document r =
     bindE (subscript r ''embedding_text'') (\<lambda>embedding_text.
     bindE (subscript r ''metadata'') (\<lambda>meta. Document embedding_text meta))"

text \<open>The value a string of decimal digits denotes.\<close>

definition digits_value :: "string \<Rightarrow> nat" where
  "digits_value ds = foldl (\<lambda>acc c. 10 * acc + (of_char c - 48)) 0 ds"

text \<open>One of the characters \<^verbatim>\<open>0\<close> to \<^verbatim>\<open>9\<close>.\<close>

definition is_digit :: "char \<Rightarrow> bool" where
  "is_digit c = (48 \<le> (of_char c :: nat) \<and> (of_char c :: nat) \<le> 57)"

text \<open>What the store is given for a document: the vector of its text, the text, the metadata.\<close>

definition document_entry :: "(string \<Rightarrow> 'v) \<Rightarrow> document \<Rightarrow> 'v entry" where
  "document_entry embeddings d = (embeddings (page_content d), page_content d, metadata d)"

text \<open>
  The files before a run of the Loader on a given bundle, a store with no collection yet,
  and a stand-in for the embedding model.
\<close>

definition processed_files :: "json \<Rightarrow> files" where
  "processed_files data = (\<lambda>path. if path = PROCESSED_JSON then Some data else None)"

definition empty_chroma :: "nat chroma" where
  "empty_chroma = (\<lambda>collection_name. [])"

definition toy_embedding :: "string \<Rightarrow> nat" where
  "toy_embedding text = length text"

text \<open>The store after a first run of the Loader on the small module.\<close>

definition first_load :: "nat chroma" where
  "first_load =
     fst (projr (build_vectorstore toy_embedding (processed_files example_bundle) empty_chroma))"

section \<open>Exceptions and loops\<close>

lemma bindE_Inr_iff: "(bindE m f = Inr y) = (\<exists>x. m = Inr x \<and> f x = Inr y)"
  by (cases m) auto

lemma mapE_Inr_all2: "mapE f xs = Inr ys \<Longrightarrow> list_all2 (\<lambda>x y. f x = Inr y) xs ys"
  by (induction xs arbitrary: ys) (auto simp: bindE_Inr_iff)

lemma mapE_Inr_length: "mapE f xs = Inr ys \<Longrightarrow> length ys = length xs"
  by (drule mapE_Inr_all2) (simp add: list_all2_lengthD)

lemma mapE_Inr_set: "mapE f xs = Inr ys \<Longrightarrow> y \<in> set ys \<Longrightarrow> \<exists>x\<in>set xs. f x = Inr y"
  by (induction xs arbitrary: ys) (auto simp: bindE_Inr_iff)

text \<open>What a run of the Normalizer that ends normally has gone through.\<close>

lemma preprocess_Inr_cases:
  assumes "preprocess raw_data = Inr (path, bundle, ws)"
  obtains top module_fields course_id name groups cs mcq_groups items ks
  where "subscript0 raw_data = Inr top"
    and "subscript top ''key_module_field'' = Inr module_fields"
    and "subscript module_fields ''course_id'' = Inr course_id"
    and "subscript module_fields ''competency_name'' = Inr name"
    and "bindE (subscript top ''question_type_mcq'') py_iter = Inr groups"
    and "mapE (render_competency module_fields course_id name) groups = Inr cs"
    and "mapE (render_mcq_group module_fields course_id name) groups = Inr mcq_groups"
    and "bindE (py_contains ''question_type_checklist'' top) (\<lambda>present.
           if present then bindE (subscript top ''question_type_checklist'') py_iter
           else Inr []) = Inr items"
    and "mapE (render_checklist module_fields course_id name) items = Inr ks"
    and "path = output_file course_id"
    and "bundle = JObj
           [(''module_info'', module_fields),
            (''competencies'', JArr (map fst cs)),
            (''mcqs'', JArr (map fst (concat mcq_groups))),
            (''checklists'', JArr (map fst ks)),
            (''total_vectors'',
               JInt (int (length cs + length (concat mcq_groups) + length ks)))]"
    and "ws = concat (map snd cs) @ concat (map snd (concat mcq_groups)) @ concat (map snd ks)"
proof -
  from assms obtain top module_fields course_id name groups cs mcq_groups present ks
    where a: "subscript0 raw_data = Inr top"
      "subscript top ''key_module_field'' = Inr module_fields"
      "subscript module_fields ''course_id'' = Inr course_id"
      "subscript module_fields ''competency_name'' = Inr name"
      "bindE (subscript top ''question_type_mcq'') py_iter = Inr groups"
      "mapE (render_competency module_fields course_id name) groups = Inr cs"
      "mapE (render_mcq_group module_fields course_id name) groups = Inr mcq_groups"
    and present: "py_contains ''question_type_checklist'' top = Inr present"
    and ks: "(if present
              then bindE (bindE (subscript top ''question_type_checklist'') py_iter)
                     (mapE (render_checklist module_fields course_id name))
              else Inr []) = Inr ks"
    and b: "path = output_file course_id"
      "bundle = JObj
           [(''module_info'', module_fields),
            (''competencies'', JArr (map fst cs)),
            (''mcqs'', JArr (map fst (concat mcq_groups))),
            (''checklists'', JArr (map fst ks)),
            (''total_vectors'',
               JInt (int (length cs + length (concat mcq_groups) + length ks)))]"
      "ws = concat (map snd cs) @ concat (map snd (concat mcq_groups)) @ concat (map snd ks)"
    unfolding preprocess_def bindE_Inr_iff Let_def by auto
  from present ks obtain items
    where "bindE (py_contains ''question_type_checklist'' top) (\<lambda>present.
             if present then bindE (subscript top ''question_type_checklist'') py_iter
             else Inr []) = Inr items"
      and "mapE (render_checklist module_fields course_id name) items = Inr ks"
    by (cases present) (auto simp: bindE_Inr_iff)
  with a b that show thesis
    by blast
qed

lemma example_run: "preprocess example_raw = Inr (output_file (JInt 341), example_bundle, [])"
  by code_simp

section \<open>Record counts\<close>

lemma render_competency_kind:
  "render_competency mf cid mn g = Inr rw \<Longrightarrow> record_kind (fst rw) = Inr (JStr ''competency'')"
  by (auto simp: render_competency_def bindE_Inr_iff record_kind_def Let_def case_prod_beta)

lemma render_mcq_kind:
  "render_mcq mf cid mn c qt co lo ao iq = Inr rw \<Longrightarrow> record_kind (fst rw) = Inr (JStr ''mcq'')"
  by (auto simp: render_mcq_def bindE_Inr_iff record_kind_def Let_def case_prod_beta)

lemma render_checklist_kind:
  "render_checklist mf cid mn g = Inr rw \<Longrightarrow> record_kind (fst rw) = Inr (JStr ''checklist'')"
  by (auto simp: render_checklist_def bindE_Inr_iff record_kind_def Let_def case_prod_beta)

lemma render_mcq_group_count:
  "render_mcq_group mf cid mn g = Inr rws \<Longrightarrow> length rws = group_question_count g"
  by (auto simp: render_mcq_group_def bindE_Inr_iff group_question_count_def enumerate_from0_def
           dest!: mapE_Inr_length)

lemma render_mcq_group_kind:
  "render_mcq_group mf cid mn g = Inr rws \<Longrightarrow> rw \<in> set rws
     \<Longrightarrow> record_kind (fst rw) = Inr (JStr ''mcq'')"
  by (auto simp: render_mcq_group_def bindE_Inr_iff dest!: mapE_Inr_set intro: render_mcq_kind)

lemma all2_sum_length:
  "list_all2 (\<lambda>x ys. length ys = f x) xs yss \<Longrightarrow> length (concat yss) = sum_list (map f xs)"
  by (induction rule: list_all2_induct) auto

lemma mcq_groups_count:
  assumes "mapE (render_mcq_group mf cid mn) groups = Inr mcq_groups"
  shows "length (concat mcq_groups) = sum_list (map group_question_count groups)"
proof -
  from assms
  have "list_all2 (\<lambda>g rws. render_mcq_group mf cid mn g = Inr rws) groups mcq_groups"
    by (rule mapE_Inr_all2)
  then have "list_all2 (\<lambda>g rws. length rws = group_question_count g) groups mcq_groups"
    by (rule list_all2_mono) (rule render_mcq_group_count)
  then show ?thesis
    by (rule all2_sum_length)
qed

text \<open>
  C2: a bundle the Normalizer produces from a raw input with N competency groups, M
  questions over all groups and K checklist groups holds N competency records, M question
  records and K checklist records, each tagged with its kind, and its \<^verbatim>\<open>total_vectors\<close>
  field is N + M + K.
\<close>

theorem bundle_counts:
  assumes "preprocess raw_data = Inr (path, bundle, ws)"
  shows "\<exists>module_info competencies mcqs checklists.
           bundle = JObj
             [(''module_info'', module_info),
              (''competencies'', JArr competencies),
              (''mcqs'', JArr mcqs),
              (''checklists'', JArr checklists),
              (''total_vectors'',
                 JInt (int (length (competency_groups raw_data)
                            + sum_list (map group_question_count (competency_groups raw_data))
                            + length (checklist_groups raw_data))))]
           \<and> length competencies = length (competency_groups raw_data)
           \<and> length mcqs = sum_list (map group_question_count (competency_groups raw_data))
           \<and> length checklists = length (checklist_groups raw_data)
           \<and> list_all (\<lambda>r. record_kind r = Inr (JStr ''competency'')) competencies
           \<and> list_all (\<lambda>r. record_kind r = Inr (JStr ''mcq'')) mcqs
           \<and> list_all (\<lambda>r. record_kind r = Inr (JStr ''checklist'')) checklists"
proof -
  from assms obtain top module_fields course_id name groups cs mcq_groups items ks
    where top: "subscript0 raw_data = Inr top"
      and groups: "bindE (subscript top ''question_type_mcq'') py_iter = Inr groups"
      and cs: "mapE (render_competency module_fields course_id name) groups = Inr cs"
      and qs: "mapE (render_mcq_group module_fields course_id name) groups = Inr mcq_groups"
      and items: "bindE (py_contains ''question_type_checklist'' top) (\<lambda>present.
           if present then bindE (subscript top ''question_type_checklist'') py_iter
           else Inr []) = Inr items"
      and ks: "mapE (render_checklist module_fields course_id name) items = Inr ks"
      and shape: "bundle = JObj
           [(''module_info'', module_fields),
            (''competencies'', JArr (map fst cs)),
            (''mcqs'', JArr (map fst (concat mcq_groups))),
            (''checklists'', JArr (map fst ks)),
            (''total_vectors'',
               JInt (int (length cs + length (concat mcq_groups) + length ks)))]"
    by (rule preprocess_Inr_cases)
  have g: "competency_groups raw_data = groups"
    using top groups by (simp add: competency_groups_def)
  have c: "checklist_groups raw_data = items"
    using top items by (simp add: checklist_groups_def)
  have n: "length cs = length groups"
    using cs by (rule mapE_Inr_length)
  have m: "length (concat mcq_groups) = sum_list (map group_question_count groups)"
    using qs by (rule mcq_groups_count)
  have k: "length ks = length items"
    using ks by (rule mapE_Inr_length)
  have kc: "list_all (\<lambda>r. record_kind r = Inr (JStr ''competency'')) (map fst cs)"
    using cs by (auto simp: list_all_iff dest!: mapE_Inr_set intro: render_competency_kind)
  have kq: "list_all (\<lambda>r. record_kind r = Inr (JStr ''mcq'')) (map fst (concat mcq_groups))"
    using qs by (auto simp: list_all_iff dest!: mapE_Inr_set intro: render_mcq_group_kind)
  have kk: "list_all (\<lambda>r. record_kind r = Inr (JStr ''checklist'')) (map fst ks)"
    using ks by (auto simp: list_all_iff dest!: mapE_Inr_set intro: render_checklist_kind)
  show ?thesis
    using shape g c n m k kc kq kk by simp
qed

theorem bundle_counts_witness:
  "preprocess example_raw = Inr (output_file (JInt 341), example_bundle, [])
   \<and> length (competency_groups example_raw) = 1
   \<and> sum_list (map group_question_count (competency_groups example_raw)) = 3
   \<and> length (checklist_groups example_raw) = 1
   \<and> (\<exists>module_info competencies mcqs checklists.
         example_bundle = JObj
           [(''module_info'', module_info),
            (''competencies'', JArr competencies),
            (''mcqs'', JArr mcqs),
            (''checklists'', JArr checklists),
            (''total_vectors'', JInt 5)]
         \<and> length competencies = 1 \<and> length mcqs = 3 \<and> length checklists = 1)"
proof -
  have n: "length (competency_groups example_raw) = 1"
    by code_simp
  have m: "sum_list (map group_question_count (competency_groups example_raw)) = 3"
    by code_simp
  have k: "length (checklist_groups example_raw) = 1"
    by code_simp
  from bundle_counts [OF example_run] n m k example_run show ?thesis
    by auto
qed

section \<open>Markup stripping\<close>

lemma match_tag_suffix: "match_tag t = Some r \<Longrightarrow> suffix r t"
proof (cases t)
  case Nil
  assume "match_tag t = Some r"
  with Nil show ?thesis by (simp add: match_tag_def)
next
  case (Cons c cs)
  assume m: "match_tag t = Some r"
  have "suffix (tl (dropWhile (\<lambda>x. x \<noteq> CHR ''>'') cs)) cs"
    by (meson suffix_dropWhile suffix_tl suffix_order.trans)
  then have "suffix (tl (dropWhile (\<lambda>x. x \<noteq> CHR ''>'') cs)) (c # cs)"
    by (rule suffix_ConsI)
  with m Cons show ?thesis
    by (auto simp: match_tag_def split: if_splits)
qed

lemma re_sub_tags_subseq: "subseq (re_sub_tags t) t"
proof (induction t rule: re_sub_tags.induct)
  case 1
  then show ?case by simp
next
  case (2 c cs)
  show ?case
  proof (cases "match_tag (c # cs)")
    case None
    with 2 show ?thesis by simp
  next
    case (Some rest)
    with 2 have "subseq (re_sub_tags rest) rest" by simp
    moreover have "subseq rest (c # cs)"
      using Some by (intro suffix_imp_subseq match_tag_suffix)
    ultimately have "subseq (re_sub_tags rest) (c # cs)"
      by (rule subseq_order.trans)
    with Some show ?thesis by simp
  qed
qed

lemma re_sub_tags_set: "x \<in> set (re_sub_tags t) \<Longrightarrow> x \<in> set t"
  using re_sub_tags_subseq [of t] by (auto dest: list_emb_set)

lemma match_tag_None_kept:
  assumes "match_tag (c # cs) = None"
  shows "match_tag (c # re_sub_tags cs) = None"
proof (cases "c = CHR ''<''")
  case False
  then show ?thesis by (simp add: match_tag_def)
next
  case True
  show ?thesis
  proof (cases "dropWhile (\<lambda>x. x \<noteq> CHR ''>'') cs = []")
    case True
    then have "CHR ''>'' \<notin> set cs"
      by (auto simp: dropWhile_eq_Nil_conv)
    then have "CHR ''>'' \<notin> set (re_sub_tags cs)"
      using re_sub_tags_set by blast
    then show ?thesis by (auto simp: match_tag_def)
  next
    case False
    with assms \<open>c = CHR ''<''\<close> have tw: "takeWhile (\<lambda>x. x \<noteq> CHR ''>'') cs = []"
      by (simp add: match_tag_def split: if_splits)
    from False have "cs \<noteq> []" by auto
    then obtain d ds where cs: "cs = d # ds" by (cases cs) auto
    with tw have d: "d = CHR ''>''" by (auto split: if_splits)
    have "match_tag (CHR ''>'' # ds) = None" by (simp add: match_tag_def)
    with cs d have "re_sub_tags cs = CHR ''>'' # re_sub_tags ds" by simp
    then show ?thesis by (simp add: match_tag_def)
  qed
qed

lemma re_sub_tags_no_tag: "\<not> has_tag (re_sub_tags t)"
proof (induction t rule: re_sub_tags.induct)
  case 1
  then show ?case by simp
next
  case (2 c cs)
  show ?case
  proof (cases "match_tag (c # cs)")
    case None
    with 2 have "\<not> has_tag (re_sub_tags cs)" by simp
    moreover from None have "match_tag (c # re_sub_tags cs) = None"
      by (rule match_tag_None_kept)
    ultimately show ?thesis using None by simp
  next
    case (Some rest)
    with 2 show ?thesis by simp
  qed
qed

lemma re_sub_tags_id: "\<not> has_tag t \<Longrightarrow> re_sub_tags t = t"
  by (induction t) auto

lemma re_sub_tags_text: "CHR ''<'' \<notin> set a \<Longrightarrow> re_sub_tags (a @ b) = a @ re_sub_tags b"
  by (induction a) (auto simp: match_tag_def)

lemma re_sub_tags_tag:
  assumes "body \<noteq> []" and "CHR ''>'' \<notin> set body"
  shows "re_sub_tags (CHR ''<'' # body @ CHR ''>'' # rest) = re_sub_tags rest"
proof -
  have all: "\<And>y. y \<in> set body \<Longrightarrow> y \<noteq> CHR ''>''"
    using assms(2) by auto
  have "takeWhile (\<lambda>y. y \<noteq> CHR ''>'') (body @ CHR ''>'' # rest) = body"
    using all by (simp add: takeWhile_append2)
  moreover have "dropWhile (\<lambda>y. y \<noteq> CHR ''>'') (body @ CHR ''>'' # rest) = CHR ''>'' # rest"
    using all by (simp add: dropWhile_append2)
  ultimately have "match_tag (CHR ''<'' # body @ CHR ''>'' # rest) = Some rest"
    using assms(1) by (simp add: match_tag_def)
  then show ?thesis
    by simp
qed

lemma re_sub_tags_markup:
  assumes "\<forall>p\<in>set pieces. CHR ''<'' \<notin> set (fst p) \<and> snd p \<noteq> [] \<and> CHR ''>'' \<notin> set (snd p)"
    and "CHR ''<'' \<notin> set final"
  shows "re_sub_tags (markup pieces final) = concat (map fst pieces) @ final"
  using assms(1)
proof (induction pieces)
  case Nil
  show ?case
    using assms(2) re_sub_tags_text [of final "[]"] by (simp add: markup_def)
next
  case (Cons p pieces)
  then have p: "CHR ''<'' \<notin> set (fst p)" "snd p \<noteq> []" "CHR ''>'' \<notin> set (snd p)"
    and ih: "re_sub_tags (markup pieces final) = concat (map fst pieces) @ final"
    by simp_all
  have "markup (p # pieces) final
      = fst p @ (CHR ''<'' # snd p @ CHR ''>'' # markup pieces final)"
    by (simp add: markup_def)
  then have "re_sub_tags (markup (p # pieces) final)
      = fst p @ re_sub_tags (CHR ''<'' # snd p @ CHR ''>'' # markup pieces final)"
    using p(1) by (simp add: re_sub_tags_text)
  also have "\<dots> = fst p @ re_sub_tags (markup pieces final)"
    by (simp only: re_sub_tags_tag [OF p(2,3)])
  finally show ?case
    using ih by simp
qed

text \<open>
  C9: markup stripping removes every tag span (a \<^verbatim>\<open><\<close>, at least one character other than
  \<^verbatim>\<open>>\<close>, then \<^verbatim>\<open>>\<close>) from a definition text: the result is what is left of the text, in
  the same order, and it holds no tag span any more; from plain text interleaved with tags
  exactly the plain text is left; and a text without tag spans comes back unchanged,
  character entities included. \<^verbatim>\<open><b>balloon</b> inflation\<close> becomes
  \<^verbatim>\<open>balloon inflation\<close>.
\<close>

theorem clean_html_strips_tags:
  "clean_html (JStr t) = Inr (re_sub_tags t)
   \<and> subseq (re_sub_tags t) t
   \<and> \<not> has_tag (re_sub_tags t)
   \<and> ((\<forall>p\<in>set pieces. CHR ''<'' \<notin> set (fst p) \<and> snd p \<noteq> [] \<and> CHR ''>'' \<notin> set (snd p))
        \<and> CHR ''<'' \<notin> set final \<longrightarrow>
        clean_html (JStr (markup pieces final)) = Inr (concat (map fst pieces) @ final))
   \<and> (\<not> has_tag t \<longrightarrow> clean_html (JStr t) = Inr t)
   \<and> clean_html (JStr ''<b>balloon</b> inflation'') = Inr ''balloon inflation''"
proof -
  have "clean_html (JStr ''<b>balloon</b> inflation'') = Inr ''balloon inflation''"
    by (simp add: clean_html_def match_tag_def)
  moreover have "clean_html (JStr (markup pieces final)) = Inr (concat (map fst pieces) @ final)"
    if "(\<forall>p\<in>set pieces. CHR ''<'' \<notin> set (fst p) \<and> snd p \<noteq> [] \<and> CHR ''>'' \<notin> set (snd p))
        \<and> CHR ''<'' \<notin> set final"
    using that by (simp add: clean_html_def re_sub_tags_markup)
  ultimately show ?thesis
    using re_sub_tags_subseq [of t] re_sub_tags_no_tag [of t] re_sub_tags_id [of t]
    by (simp add: clean_html_def)
qed

theorem clean_html_strips_tags_witness:
  "\<not> has_tag ''1 &lt; 2 &amp; 3 > 2''
   \<and> clean_html (JStr ''1 &lt; 2 &amp; 3 > 2'') = Inr ''1 &lt; 2 &amp; 3 > 2''
   \<and> CHR ''<'' \<notin> set ''Inflate the '' \<and> ''b'' \<noteq> [] \<and> CHR ''>'' \<notin> set ''b''
   \<and> CHR ''<'' \<notin> set ''balloon'' \<and> ''/b'' \<noteq> [] \<and> CHR ''>'' \<notin> set ''/b''
   \<and> CHR ''<'' \<notin> set '' > 5 ml''
   \<and> markup [(''Inflate the '', ''b''), (''balloon'', ''/b'')] '' > 5 ml''
       = ''Inflate the <b>balloon</b> > 5 ml''
   \<and> clean_html (JStr (markup [(''Inflate the '', ''b''), (''balloon'', ''/b'')] '' > 5 ml''))
       = Inr ''Inflate the balloon > 5 ml''"
proof -
  have h: "\<not> has_tag ''1 &lt; 2 &amp; 3 > 2''"
    by (simp add: match_tag_def)
  have p: "(\<forall>p\<in>set [(''Inflate the '', ''b''), (''balloon'', ''/b'')].
              CHR ''<'' \<notin> set (fst p) \<and> snd p \<noteq> [] \<and> CHR ''>'' \<notin> set (snd p))
           \<and> CHR ''<'' \<notin> set '' > 5 ml''"
    by simp
  have m: "markup [(''Inflate the '', ''b''), (''balloon'', ''/b'')] '' > 5 ml''
       = ''Inflate the <b>balloon</b> > 5 ml''"
    by (simp add: markup_def)
  from clean_html_strips_tags
         [of "''1 &lt; 2 &amp; 3 > 2''" "[(''Inflate the '', ''b''), (''balloon'', ''/b'')]"
             "'' > 5 ml''"] h p
  have "clean_html (JStr ''1 &lt; 2 &amp; 3 > 2'') = Inr ''1 &lt; 2 &amp; 3 > 2''
      \<and> clean_html (JStr (markup [(''Inflate the '', ''b''), (''balloon'', ''/b'')] '' > 5 ml''))
          = Inr (concat (map fst [(''Inflate the '', ''b''), (''balloon'', ''/b'')]) @ '' > 5 ml'')"
    by blast
  with h m show ?thesis
    by simp
qed

section \<open>Quoted-list extraction\<close>

lemma re_findall_skip:
  "SQUOTE \<notin> set pre \<Longrightarrow> re_findall_quoted (pre @ rest) = re_findall_quoted rest"
  by (induction pre) auto

lemma re_findall_item:
  assumes "SQUOTE \<notin> set x"
  shows "re_findall_quoted (SQUOTE # x @ SQUOTE # rest) = x # re_findall_quoted rest"
proof -
  have all: "\<And>y. y \<in> set x \<Longrightarrow> y \<noteq> SQUOTE"
    using assms by auto
  have "takeWhile (\<lambda>y. y \<noteq> SQUOTE) (x @ SQUOTE # rest) = x"
    using all by (simp add: takeWhile_append2)
  moreover have "dropWhile (\<lambda>y. y \<noteq> SQUOTE) (x @ SQUOTE # rest) = SQUOTE # rest"
    using all by (simp add: dropWhile_append2)
  ultimately show ?thesis by simp
qed

lemma re_findall_join:
  assumes "\<forall>x\<in>set xs. SQUOTE \<notin> set x" and "SQUOTE \<notin> set sep"
  shows "re_findall_quoted (join sep (map quoted xs)) = xs"
  using assms
proof (induction xs rule: induct_list012)
  case 1
  then show ?case by simp
next
  case (2 x)
  then have "re_findall_quoted (SQUOTE # x @ SQUOTE # []) = x # re_findall_quoted []"
    by (intro re_findall_item) simp
  then show ?case by (simp add: quoted_def)
next
  case (3 x y zs)
  then have ih: "re_findall_quoted (join sep (map quoted (y # zs))) = y # zs"
    by simp
  from 3 have "re_findall_quoted (SQUOTE # x @ SQUOTE # (sep @ join sep (map quoted (y # zs))))
      = x # re_findall_quoted (sep @ join sep (map quoted (y # zs)))"
    by (intro re_findall_item) simp
  also have "re_findall_quoted (sep @ join sep (map quoted (y # zs)))
      = re_findall_quoted (join sep (map quoted (y # zs)))"
    using 3 by (intro re_findall_skip) simp
  finally show ?case using ih by (simp add: quoted_def)
qed

lemma quote_count_0: "quote_count t = 0 \<longleftrightarrow> SQUOTE \<notin> set t"
  by (induction t) (auto simp: quote_count_def)

lemma re_findall_unpaired: "quote_count t \<le> 1 \<Longrightarrow> re_findall_quoted t = []"
proof (induction t)
  case Nil
  then show ?case by simp
next
  case (Cons c cs)
  show ?case
  proof (cases "c = SQUOTE")
    case True
    with Cons.prems have z: "quote_count cs = 0"
      by (simp add: quote_count_def)
    then have "SQUOTE \<notin> set cs"
      by (simp add: quote_count_0)
    then have "dropWhile (\<lambda>x. x \<noteq> SQUOTE) cs = []"
      by (auto simp: dropWhile_eq_Nil_conv)
    moreover from z Cons.IH have "re_findall_quoted cs = []"
      by simp
    ultimately show ?thesis
      by simp
  next
    case False
    with Cons.prems have "quote_count cs \<le> 1"
      by (simp add: quote_count_def)
    with Cons.IH False show ?thesis
      by simp
  qed
qed

lemma re_findall_quoted_text:
  assumes "\<forall>p\<in>set items. SQUOTE \<notin> set (fst p) \<and> SQUOTE \<notin> set (snd p)"
    and "quote_count final \<le> 1"
  shows "re_findall_quoted (quoted_text items final) = map snd items"
  using assms(1)
proof (induction items)
  case Nil
  show ?case
    using assms(2) by (simp add: quoted_text_def re_findall_unpaired)
next
  case (Cons p items)
  then have p: "SQUOTE \<notin> set (fst p)" "SQUOTE \<notin> set (snd p)"
    and ih: "re_findall_quoted (quoted_text items final) = map snd items"
    by simp_all
  have "quoted_text (p # items) final
      = fst p @ (SQUOTE # snd p @ SQUOTE # quoted_text items final)"
    by (simp add: quoted_text_def quoted_def)
  then have "re_findall_quoted (quoted_text (p # items) final)
      = re_findall_quoted (SQUOTE # snd p @ SQUOTE # quoted_text items final)"
    by (simp only: re_findall_skip [OF p(1)])
  also have "\<dots> = snd p # re_findall_quoted (quoted_text items final)"
    by (rule re_findall_item [OF p(2)])
  finally show ?case
    using ih by simp
qed

lemma quoted_text_exists:
  "\<exists>items final. t = quoted_text items final
     \<and> (\<forall>p\<in>set items. SQUOTE \<notin> set (fst p) \<and> SQUOTE \<notin> set (snd p))
     \<and> quote_count final \<le> 1"
proof (induction t rule: re_findall_quoted.induct)
  case 1
  have "[] = quoted_text [] []" "quote_count [] \<le> 1"
    by (simp_all add: quoted_text_def quote_count_def)
  then show ?case
    by (intro exI [of _ "[]"]) auto
next
  case (2 c cs)
  show ?case
  proof (cases "c = SQUOTE")
    case True
    show ?thesis
    proof (cases "dropWhile (\<lambda>x. x \<noteq> SQUOTE) cs = []")
      case True
      then have "SQUOTE \<notin> set cs"
        by (auto simp: dropWhile_eq_Nil_conv)
      then have "quote_count (c # cs) \<le> 1"
        using quote_count_0 [of cs] by (simp add: quote_count_def)
      moreover have "c # cs = quoted_text [] (c # cs)"
        by (simp add: quoted_text_def)
      ultimately show ?thesis
        by (intro exI [of _ "[]"] exI [of _ "c # cs"]) simp
    next
      case False
      define x where "x = takeWhile (\<lambda>x. x \<noteq> SQUOTE) cs"
      define rest where "rest = tl (dropWhile (\<lambda>x. x \<noteq> SQUOTE) cs)"
      from False have "hd (dropWhile (\<lambda>x. x \<noteq> SQUOTE) cs) = SQUOTE"
        using hd_dropWhile [of "\<lambda>x. x \<noteq> SQUOTE" cs] by simp
      with False have "dropWhile (\<lambda>x. x \<noteq> SQUOTE) cs = SQUOTE # rest"
        by (cases "dropWhile (\<lambda>x. x \<noteq> SQUOTE) cs") (auto simp: rest_def)
      then have cs: "cs = x @ SQUOTE # rest"
        using takeWhile_dropWhile_id [of "\<lambda>x. x \<noteq> SQUOTE" cs] by (simp add: x_def)
      have xq: "SQUOTE \<notin> set x"
        unfolding x_def by (auto dest: set_takeWhileD)
      from 2(1) [OF conjI [OF \<open>c = SQUOTE\<close> False]] obtain items final
        where r: "rest = quoted_text items final"
          and ok: "\<forall>p\<in>set items. SQUOTE \<notin> set (fst p) \<and> SQUOTE \<notin> set (snd p)"
            "quote_count final \<le> 1"
        unfolding rest_def by blast
      have "c # cs = quoted_text (([], x) # items) final"
        using cs r \<open>c = SQUOTE\<close> by (simp add: quoted_text_def quoted_def)
      moreover have "\<forall>p\<in>set (([], x) # items). SQUOTE \<notin> set (fst p) \<and> SQUOTE \<notin> set (snd p)"
        using ok(1) xq by simp
      ultimately show ?thesis
        using ok(2) by blast
    qed
  next
    case False
    then have "\<not> (c = SQUOTE \<and> dropWhile (\<lambda>x. x \<noteq> SQUOTE) cs \<noteq> [])"
      by simp
    from 2(2) [OF this] obtain items final
      where r: "cs = quoted_text items final"
        and ok: "\<forall>p\<in>set items. SQUOTE \<notin> set (fst p) \<and> SQUOTE \<notin> set (snd p)"
          "quote_count final \<le> 1"
      by blast
    show ?thesis
    proof (cases items)
      case Nil
      with r have "c # cs = quoted_text [] (c # final)"
        by (simp add: quoted_text_def)
      moreover have "quote_count (c # final) \<le> 1"
        using ok(2) False by (simp add: quote_count_def)
      ultimately show ?thesis
        by (intro exI [of _ "[]"] exI [of _ "c # final"]) simp
    next
      case (Cons p ps)
      with r have "c # cs = quoted_text ((c # fst p, snd p) # ps) final"
        by (simp add: quoted_text_def)
      moreover have "\<forall>q\<in>set ((c # fst p, snd p) # ps).
          SQUOTE \<notin> set (fst q) \<and> SQUOTE \<notin> set (snd q)"
        using ok(1) Cons False by auto
      ultimately show ?thesis
        using ok(2) by blast
    qed
  qed
qed

text \<open>
  C8: quoted-list extraction returns the substrings enclosed in single quotes, in order.
  Every text is made of stretches of quote-free text, each followed by an item in quotes,
  and a final stretch with at most one quote, which has no partner; of such a text exactly
  the items are returned, in order, whatever stands before, between and after them. So the
  string \<^verbatim>\<open>'a', 'b', 'c'\<close> gives \<open>[a, b, c]\<close>; a string without a quote gives the empty list;
  items free of quotes, each wrapped in quotes and joined by any separator free of quotes,
  are returned as they are; and a backslash escapes nothing: in \<^verbatim>\<open>'a\'b'\<close> the item ends at
  the second quote.
\<close>

theorem parse_quoted_list_items:
  "parse_quoted_list
     (JStr [SQUOTE, CHR ''a'', SQUOTE, CHR '','', CHR '' '',
            SQUOTE, CHR ''b'', SQUOTE, CHR '','', CHR '' '',
            SQUOTE, CHR ''c'', SQUOTE]) = Inr [''a'', ''b'', ''c'']
   \<and> (SQUOTE \<notin> set t \<longrightarrow> parse_quoted_list (JStr t) = Inr [])
   \<and> ((\<forall>x\<in>set xs. SQUOTE \<notin> set x) \<and> SQUOTE \<notin> set sep
        \<longrightarrow> parse_quoted_list (JStr (join sep (map quoted xs))) = Inr xs)
   \<and> parse_quoted_list (JStr [SQUOTE, CHR ''a'', BSL, SQUOTE, CHR ''b'', SQUOTE])
        = Inr [[CHR ''a'', BSL]]
   \<and> ((\<forall>p\<in>set items. SQUOTE \<notin> set (fst p) \<and> SQUOTE \<notin> set (snd p))
        \<and> quote_count final \<le> 1
        \<longrightarrow> parse_quoted_list (JStr (quoted_text items final)) = Inr (map snd items))
   \<and> (\<exists>items final.
         t = quoted_text items final
         \<and> (\<forall>p\<in>set items. SQUOTE \<notin> set (fst p) \<and> SQUOTE \<notin> set (snd p))
         \<and> quote_count final \<le> 1)"
proof -
  have "SQUOTE \<notin> set t \<Longrightarrow> re_findall_quoted t = []"
    using re_findall_skip [of t "[]"] by simp
  moreover have "(\<forall>x\<in>set xs. SQUOTE \<notin> set x) \<and> SQUOTE \<notin> set sep
      \<Longrightarrow> re_findall_quoted (join sep (map quoted xs)) = xs"
    by (simp add: re_findall_join)
  moreover have "(\<forall>p\<in>set items. SQUOTE \<notin> set (fst p) \<and> SQUOTE \<notin> set (snd p))
      \<and> quote_count final \<le> 1
      \<Longrightarrow> re_findall_quoted (quoted_text items final) = map snd items"
    by (simp add: re_findall_quoted_text)
  ultimately have four: "parse_quoted_list
       (JStr [SQUOTE, CHR ''a'', SQUOTE, CHR '','', CHR '' '',
              SQUOTE, CHR ''b'', SQUOTE, CHR '','', CHR '' '',
              SQUOTE, CHR ''c'', SQUOTE]) = Inr [''a'', ''b'', ''c'']
     \<and> (SQUOTE \<notin> set t \<longrightarrow> parse_quoted_list (JStr t) = Inr [])
     \<and> ((\<forall>x\<in>set xs. SQUOTE \<notin> set x) \<and> SQUOTE \<notin> set sep
          \<longrightarrow> parse_quoted_list (JStr (join sep (map quoted xs))) = Inr xs)
     \<and> parse_quoted_list (JStr [SQUOTE, CHR ''a'', BSL, SQUOTE, CHR ''b'', SQUOTE])
          = Inr [[CHR ''a'', BSL]]
     \<and> ((\<forall>p\<in>set items. SQUOTE \<notin> set (fst p) \<and> SQUOTE \<notin> set (snd p))
          \<and> quote_count final \<le> 1
          \<longrightarrow> parse_quoted_list (JStr (quoted_text items final)) = Inr (map snd items))"
    by (simp add: parse_quoted_list_def)
  with quoted_text_exists [of t] show ?thesis
    by simp
qed

theorem parse_quoted_list_items_witness:
  "SQUOTE \<notin> set ''[]'' \<and> parse_quoted_list (JStr ''[]'') = Inr []
   \<and> SQUOTE \<notin> set ''101'' \<and> SQUOTE \<notin> set ''102'' \<and> SQUOTE \<notin> set '', ''
   \<and> parse_quoted_list (JStr (join '', '' (map quoted [''101'', ''102''])))
        = Inr [''101'', ''102'']
   \<and> SQUOTE \<notin> set ''ids: ['' \<and> quote_count '']'' \<le> 1
   \<and> quoted_text [(''ids: ['', ''101''), ('', '', ''102'')] '']''
       = [CHR ''i'', CHR ''d'', CHR ''s'', CHR '':'', CHR '' '', CHR ''['',
          SQUOTE, CHR ''1'', CHR ''0'', CHR ''1'', SQUOTE, CHR '','', CHR '' '',
          SQUOTE, CHR ''1'', CHR ''0'', CHR ''2'', SQUOTE, CHR '']'']
   \<and> parse_quoted_list (JStr (quoted_text [(''ids: ['', ''101''), ('', '', ''102'')] '']''))
        = Inr [''101'', ''102'']
   \<and> quote_count [CHR ''o'', SQUOTE, CHR ''c''] = 1
   \<and> parse_quoted_list
        (JStr (quoted_text [(''ids: ['', ''101''), ('', '', ''102'')] [CHR ''o'', SQUOTE, CHR ''c'']))
        = Inr [''101'', ''102'']"
proof -
  have h1: "SQUOTE \<notin> set ''[]''"
    by simp
  have h2: "(\<forall>x\<in>set [''101'', ''102'']. SQUOTE \<notin> set x) \<and> SQUOTE \<notin> set '', ''"
    by simp
  have h3: "(\<forall>p\<in>set [(''ids: ['', ''101''), ('', '', ''102'')].
               SQUOTE \<notin> set (fst p) \<and> SQUOTE \<notin> set (snd p))
            \<and> quote_count '']'' \<le> 1"
    by (simp add: quote_count_def)
  have h4: "(\<forall>p\<in>set [(''ids: ['', ''101''), ('', '', ''102'')].
               SQUOTE \<notin> set (fst p) \<and> SQUOTE \<notin> set (snd p))
            \<and> quote_count [CHR ''o'', SQUOTE, CHR ''c''] \<le> 1"
    by (simp add: quote_count_def)
  have q: "SQUOTE \<notin> set ''ids: [''" "quote_count '']'' \<le> 1"
    "quote_count [CHR ''o'', SQUOTE, CHR ''c''] = 1"
    by (simp_all add: quote_count_def)
  have e: "quoted_text [(''ids: ['', ''101''), ('', '', ''102'')] '']''
       = [CHR ''i'', CHR ''d'', CHR ''s'', CHR '':'', CHR '' '', CHR ''['',
          SQUOTE, CHR ''1'', CHR ''0'', CHR ''1'', SQUOTE, CHR '','', CHR '' '',
          SQUOTE, CHR ''1'', CHR ''0'', CHR ''2'', SQUOTE, CHR '']'']"
    by (simp add: quoted_text_def quoted_def)
  from parse_quoted_list_items
         [where t = "''[]''" and xs = "[''101'', ''102'']" and sep = "'', ''"
            and items = "[(''ids: ['', ''101''), ('', '', ''102'')]" and final = "'']''"] h1 h2 h3
  have a: "parse_quoted_list (JStr ''[]'') = Inr []
      \<and> parse_quoted_list (JStr (join '', '' (map quoted [''101'', ''102''])))
           = Inr [''101'', ''102'']
      \<and> parse_quoted_list (JStr (quoted_text [(''ids: ['', ''101''), ('', '', ''102'')] '']''))
           = Inr (map snd [(''ids: ['', ''101''), ('', '', ''102'')])"
    by blast
  from parse_quoted_list_items
         [where items = "[(''ids: ['', ''101''), ('', '', ''102'')]"
            and final = "[CHR ''o'', SQUOTE, CHR ''c'']"] h4
  have b: "parse_quoted_list
        (JStr (quoted_text [(''ids: ['', ''101''), ('', '', ''102'')] [CHR ''o'', SQUOTE, CHR ''c'']))
        = Inr (map snd [(''ids: ['', ''101''), ('', '', ''102'')])"
    by blast
  from a b q e show ?thesis
    by simp
qed

section \<open>Truncation\<close>













lemma example_checklist_run:
  "render_checklist example_module_fields (JInt 341) (JStr ''Urinary Catheterization'')
     (example_checklist_group (JStr ''Insert catheter'')) = Inr (example_checklist, [])"
  by code_simp



section \<open>Missing module keys\<close>

lemma render_competency_needs_domain:
  "subscript mf ''module_domain'' = Inl e \<Longrightarrow> render_competency mf cid mn g \<noteq> Inr rw"
  by (auto simp: render_competency_def bindE_Inr_iff Let_def case_prod_beta)

lemma render_checklist_needs_domain:
  "subscript mf ''module_domain'' = Inl e \<Longrightarrow> render_checklist mf cid mn g \<noteq> Inr rw"
  by (auto simp: render_checklist_def bindE_Inr_iff Let_def case_prod_beta)

lemma missing_domain_fails:
  assumes ex: "subscript0 raw_data = Inr export_obj"
    and mf: "subscript export_obj ''key_module_field'' = Inr module_fields"
    and dom: "subscript module_fields ''module_domain'' = Inl KeyError"
    and some: "competency_groups raw_data \<noteq> [] \<or> checklist_groups raw_data \<noteq> []"
  shows "isl (preprocess raw_data)"
proof (rule ccontr)
  assume "\<not> isl (preprocess raw_data)"
  then obtain path b ws where run: "preprocess raw_data = Inr (path, b, ws)"
    by (cases "preprocess raw_data") auto
  then obtain top' module_fields' course_id name groups cs mcq_groups items ks
    where top': "subscript0 raw_data = Inr top'"
      and mf': "subscript top' ''key_module_field'' = Inr module_fields'"
      and groups: "bindE (subscript top' ''question_type_mcq'') py_iter = Inr groups"
      and cs: "mapE (render_competency module_fields' course_id name) groups = Inr cs"
      and items: "bindE (py_contains ''question_type_checklist'' top') (\<lambda>present.
           if present then bindE (subscript top' ''question_type_checklist'') py_iter
           else Inr []) = Inr items"
      and ks: "mapE (render_checklist module_fields' course_id name) items = Inr ks"
    by (rule preprocess_Inr_cases)
  from ex top' mf mf' have eq: "top' = export_obj" "module_fields' = module_fields"
    by auto
  have g: "competency_groups raw_data = groups"
    using top' groups by (simp add: competency_groups_def)
  have c: "checklist_groups raw_data = items"
    using top' items by (simp add: checklist_groups_def)
  from some show False
  proof
    assume "competency_groups raw_data \<noteq> []"
    with g obtain x xs where "groups = x # xs"
      by (cases groups) auto
    with cs obtain y where "render_competency module_fields' course_id name x = Inr y"
      by (auto simp: bindE_Inr_iff)
    with dom eq show False
      by (auto dest: render_competency_needs_domain)
  next
    assume "checklist_groups raw_data \<noteq> []"
    with c obtain x xs where "items = x # xs"
      by (cases items) auto
    with ks obtain y where "render_checklist module_fields' course_id name x = Inr y"
      by (auto simp: bindE_Inr_iff)
    with dom eq show False
      by (auto dest: render_checklist_needs_domain)
  qed
qed

lemma missing_key_only: "subscript v k = Inl KeyError \<Longrightarrow> subscript v k' \<noteq> Inl TypeError"
  by (cases v) (auto split: option.splits)

text \<open>
  C4, as the code has it: with the \<^verbatim>\<open>key_module_field\<close> block absent, or the course id or
  the module name absent from it, the run ends in a \<^verbatim>\<open>KeyError\<close>. The domain is read only
  while a record is built: with the domain absent the run fails whenever the export holds a
  competency group or a checklist group. A run that fails writes no file.
\<close>

theorem missing_module_keys:
  assumes "subscript0 raw_data = Inr export_obj"
  shows "(subscript export_obj ''key_module_field'' = Inl KeyError \<longrightarrow>
            preprocess raw_data = Inl KeyError)
       \<and> (subscript export_obj ''key_module_field'' = Inr module_fields
            \<and> (subscript module_fields ''course_id'' = Inl KeyError
                 \<or> subscript module_fields ''competency_name'' = Inl KeyError) \<longrightarrow>
            preprocess raw_data = Inl KeyError)
       \<and> (subscript export_obj ''key_module_field'' = Inr module_fields
            \<and> subscript module_fields ''module_domain'' = Inl KeyError
            \<and> (competency_groups raw_data \<noteq> [] \<or> checklist_groups raw_data \<noteq> []) \<longrightarrow>
            isl (preprocess raw_data))
       \<and> (fs INPUT_JSON = Some raw_data \<and> isl (preprocess raw_data) \<longrightarrow>
            preprocess_main fs = (fs, Inl (projl (preprocess raw_data))))"
proof (intro conjI impI)
  assume "subscript export_obj ''key_module_field'' = Inl KeyError"
  with assms show "preprocess raw_data = Inl KeyError"
    by (simp add: preprocess_def)
next
  assume a: "subscript export_obj ''key_module_field'' = Inr module_fields
    \<and> (subscript module_fields ''course_id'' = Inl KeyError
         \<or> subscript module_fields ''competency_name'' = Inl KeyError)"
  then have "subscript module_fields ''course_id'' \<noteq> Inl TypeError"
    by (auto dest: missing_key_only)
  then consider "subscript module_fields ''course_id'' = Inl KeyError"
    | v where "subscript module_fields ''course_id'' = Inr v"
      "subscript module_fields ''competency_name'' = Inl KeyError"
    using a by (cases module_fields) (auto split: option.splits)
  then show "preprocess raw_data = Inl KeyError"
    using assms a by cases (simp_all add: preprocess_def)
next
  assume "subscript export_obj ''key_module_field'' = Inr module_fields
    \<and> subscript module_fields ''module_domain'' = Inl KeyError
    \<and> (competency_groups raw_data \<noteq> [] \<or> checklist_groups raw_data \<noteq> [])"
  with assms show "isl (preprocess raw_data)"
    by (intro missing_domain_fails) auto
next
  assume "fs INPUT_JSON = Some raw_data \<and> isl (preprocess raw_data)"
  then show "preprocess_main fs = (fs, Inl (projl (preprocess raw_data)))"
    by (cases "preprocess raw_data") (simp_all add: preprocess_main_def)
qed

theorem missing_module_keys_witness:
  "subscript0 no_block_raw = Inr no_block_object
   \<and> subscript no_block_object ''key_module_field'' = Inl KeyError
   \<and> preprocess no_block_raw = Inl KeyError
   \<and> input_files no_block_raw INPUT_JSON = Some no_block_raw
   \<and> isl (preprocess no_block_raw)
   \<and> preprocess_main (input_files no_block_raw)
        = (input_files no_block_raw, Inl (projl (preprocess no_block_raw)))
   \<and> subscript0 (raw_export no_name_fields [] []) = Inr (export_object no_name_fields [] [])
   \<and> subscript (export_object no_name_fields [] []) ''key_module_field'' = Inr no_name_fields
   \<and> subscript no_name_fields ''competency_name'' = Inl KeyError
   \<and> preprocess (raw_export no_name_fields [] []) = Inl KeyError
   \<and> subscript0 (raw_export no_domain_fields [example_group [''101''] [''A?'']] [])
        = Inr (export_object no_domain_fields [example_group [''101''] [''A?'']] [])
   \<and> subscript (export_object no_domain_fields [example_group [''101''] [''A?'']] [])
        ''key_module_field'' = Inr no_domain_fields
   \<and> subscript no_domain_fields ''module_domain'' = Inl KeyError
   \<and> competency_groups (raw_export no_domain_fields [example_group [''101''] [''A?'']] [])
        \<noteq> []
   \<and> isl (preprocess (raw_export no_domain_fields [example_group [''101''] [''A?'']] []))"
proof -
  have a1: "subscript0 no_block_raw = Inr no_block_object"
    by (simp add: no_block_raw_def)
  have a2: "subscript no_block_object ''key_module_field'' = Inl KeyError"
    by (simp add: no_block_object_def)
  have b1: "subscript0 (raw_export no_name_fields [] [])
      = Inr (export_object no_name_fields [] [])"
    by (simp add: raw_export_def)
  have b2: "subscript (export_object no_name_fields [] []) ''key_module_field''
      = Inr no_name_fields"
    by (simp add: export_object_def)
  have b3: "subscript no_name_fields ''competency_name'' = Inl KeyError"
    by (simp add: no_name_fields_def)
  have c1: "subscript0 (raw_export no_domain_fields [example_group [''101''] [''A?'']] [])
      = Inr (export_object no_domain_fields [example_group [''101''] [''A?'']] [])"
    by (simp add: raw_export_def)
  have c2: "subscript (export_object no_domain_fields [example_group [''101''] [''A?'']] [])
      ''key_module_field'' = Inr no_domain_fields"
    by (simp add: export_object_def)
  have c3: "subscript no_domain_fields ''module_domain'' = Inl KeyError"
    by (simp add: no_domain_fields_def)
  have c4: "competency_groups (raw_export no_domain_fields [example_group [''101''] [''A?'']] [])
      \<noteq> []"
    by (simp add: competency_groups_def raw_export_def export_object_def)
  have a3: "input_files no_block_raw INPUT_JSON = Some no_block_raw"
    by (simp add: input_files_def)
  note t1 = missing_module_keys [OF a1, of no_name_fields "input_files no_block_raw"]
  note t2 = missing_module_keys [OF b1, of no_name_fields]
  note t3 = missing_module_keys [OF c1, of no_domain_fields]
  from t1 a2 have r1: "preprocess no_block_raw = Inl KeyError"
    by blast
  then have r1': "isl (preprocess no_block_raw)"
    by simp
  with t1 a3 have r1'': "preprocess_main (input_files no_block_raw)
      = (input_files no_block_raw, Inl (projl (preprocess no_block_raw)))"
    by blast
  from t2 b2 b3 have r2: "preprocess (raw_export no_name_fields [] []) = Inl KeyError"
    by blast
  from t3 c2 c3 c4
  have r3: "isl (preprocess (raw_export no_domain_fields [example_group [''101''] [''A?'']] []))"
    by blast
  from a1 a2 r1 a3 r1' r1'' b1 b2 b3 r2 c1 c2 c3 c4 r3 show ?thesis
    by (intro conjI)
qed

text \<open>
  C4 as stated fails for the domain: an export without groups and without the domain key is
  processed to the end, and the bundle is written.
\<close>

theorem missing_domain_counterexample:
  "subscript0 (raw_export no_domain_fields [] []) = Inr (export_object no_domain_fields [] [])
   \<and> subscript (export_object no_domain_fields [] []) ''key_module_field''
        = Inr no_domain_fields
   \<and> subscript no_domain_fields ''module_domain'' = Inl KeyError
   \<and> preprocess (raw_export no_domain_fields [] [])
        = Inr (output_file (JInt 341), empty_bundle no_domain_fields, [])
   \<and> preprocess_main (input_files (raw_export no_domain_fields [] []))
        = ((input_files (raw_export no_domain_fields [] []))
             (output_file (JInt 341) \<mapsto> empty_bundle no_domain_fields), Inr [])"
proof -
  have run: "preprocess (raw_export no_domain_fields [] [])
      = Inr (output_file (JInt 341), empty_bundle no_domain_fields, [])"
    by code_simp
  have "INPUT_JSON \<noteq> output_file (JInt 341)"
    by code_simp
  with run have "preprocess_main (input_files (raw_export no_domain_fields [] []))
      = ((input_files (raw_export no_domain_fields [] []))
           (output_file (JInt 341) \<mapsto> empty_bundle no_domain_fields), Inr [])"
    by (simp add: preprocess_main_def input_files_def)
  with run show ?thesis
    by (simp add: raw_export_def export_object_def no_domain_fields_def)
qed

section \<open>Parallel lists of unequal length\<close>

lemma render_mcq_out_of_range:
  assumes "\<not> (i < length qts \<and> i < length cos \<and> i < length los \<and> i < length aos)"
  shows "render_mcq mf cid mn c qts cos los aos (i, q) = Inl IndexError"
  using assms by (auto simp: render_mcq_def list_index_def Let_def)

lemma render_mcq_in_range:
  assumes "i < length qts" "i < length cos" "i < length los" "i < length aos"
    and "subscript c ''module_compentency_area'' = Inr area"
    and "subscript c ''competency_type'' = Inr ctype"
    and "subscript c ''competency_id'' = Inr cid'"
    and "subscript mf ''module_domain'' = Inr domain"
  shows "\<exists>rw. render_mcq mf cid mn c qts cos los aos (i, q) = Inr rw"
  using assms by (simp add: render_mcq_def list_index_def Let_def case_prod_beta)

lemma mcq_loop_index_error:
  assumes "subscript c ''module_compentency_area'' = Inr area"
    and "subscript c ''competency_type'' = Inr ctype"
    and "subscript c ''competency_id'' = Inr cid'"
    and "subscript mf ''module_domain'' = Inr domain"
    and "k \<le> min (min (length qts) (length cos)) (min (length los) (length aos))"
    and "min (min (length qts) (length cos)) (min (length los) (length aos)) < k + length qids"
  shows "mapE (render_mcq mf cid mn c qts cos los aos) (zip [k..<k + length qids] qids)
           = Inl IndexError"
  using assms(5,6)
proof (induction qids arbitrary: k)
  case Nil
  then have False
    unfolding list.size by arith
  then show ?case ..
next
  case (Cons q qids)
  have z: "zip [k..<k + length (q # qids)] (q # qids)
      = (k, q) # zip [Suc k..<Suc k + length qids] qids"
    by (subst upt_conv_Cons) simp_all
  show ?case
  proof (cases "k = min (min (length qts) (length cos)) (min (length los) (length aos))")
    case True
    then have "\<not> (k < length qts \<and> k < length cos \<and> k < length los \<and> k < length aos)"
      by arith
    then have "render_mcq mf cid mn c qts cos los aos (k, q) = Inl IndexError"
      by (rule render_mcq_out_of_range)
    with z show ?thesis by simp
  next
    case False
    with Cons.prems have lt: "k < length qts" "k < length cos" "k < length los" "k < length aos"
      by arith+
    then obtain rw where "render_mcq mf cid mn c qts cos los aos (k, q) = Inr rw"
      using render_mcq_in_range [OF lt assms(1-4)] by blast
    moreover have "mapE (render_mcq mf cid mn c qts cos los aos)
        (zip [Suc k..<Suc k + length qids] qids) = Inl IndexError"
      using Cons.prems False by (intro Cons.IH; unfold list.size) arith+
    ultimately show ?thesis using z by simp
  qed
qed

lemma unequal_run: "preprocess unequal_raw = Inl IndexError"
  by code_simp

text \<open>
  C7: nothing compares the lengths of the parallel lists. In a group whose keys are all
  present, as soon as the list of question ids is longer than one of the four other lists,
  rendering the questions ends in an \<^verbatim>\<open>IndexError\<close>, not in the \<^verbatim>\<open>KeyError\<close> of a missing
  key; and there is such an export, on which the whole run ends that way and writes no file.
\<close>

theorem unequal_lists_index_error:
  assumes "subscript comp_group ''competency'' = Inr competency"
    and "subscript comp_group ''question'' = Inr questions"
    and "subscript questions ''question_ids'' = Inr (JStr ids)"
    and "subscript questions ''question_texts'' = Inr (JStr texts)"
    and "subscript questions ''correct_options_texts'' = Inr (JStr corrects)"
    and "subscript questions ''question_id_competency_definition'' = Inr (JStr objectives)"
    and "subscript questions ''options_texts'' = Inr (JStr opts)"
    and "subscript competency ''module_compentency_area'' = Inr area"
    and "subscript competency ''competency_type'' = Inr ctype"
    and "subscript competency ''competency_id'' = Inr competency_id"
    and "subscript module_fields ''module_domain'' = Inr module_domain"
    and "length (re_findall_quoted texts) < length (re_findall_quoted ids)
         \<or> length (re_findall_quoted corrects) < length (re_findall_quoted ids)
         \<or> length (re_findall_quoted objectives) < length (re_findall_quoted ids)
         \<or> length (re_findall_quoted opts) < length (re_findall_quoted ids)"
  shows "render_mcq_group module_fields course_id module_name comp_group = Inl IndexError
         \<and> preprocess unequal_raw = Inl IndexError
         \<and> preprocess_main (input_files unequal_raw) = (input_files unequal_raw, Inl IndexError)"
proof -
  have "mapE (render_mcq module_fields course_id module_name competency
                (re_findall_quoted texts) (re_findall_quoted corrects)
                (re_findall_quoted objectives) (re_findall_quoted opts))
          (zip [0..<0 + length (re_findall_quoted ids)] (re_findall_quoted ids))
        = Inl IndexError"
    using assms(12) by (intro mcq_loop_index_error [OF assms(8-11)]) auto
  then have "render_mcq_group module_fields course_id module_name comp_group = Inl IndexError"
    using assms(1-7) by (simp add: render_mcq_group_def parse_quoted_list_def enumerate_from0_def)
  moreover have "preprocess_main (input_files unequal_raw)
      = (input_files unequal_raw, Inl IndexError)"
    using unequal_run by (simp add: preprocess_main_def input_files_def)
  ultimately show ?thesis
    using unequal_run by simp
qed

theorem unequal_lists_index_error_witness:
  "subscript (example_group [''101'', ''102'', ''103''] [''A?'', ''B?'']) ''competency''
     = Inr example_descriptor
   \<and> subscript (example_group [''101'', ''102'', ''103''] [''A?'', ''B?'']) ''question''
     = Inr (example_questions [''101'', ''102'', ''103''] [''A?'', ''B?''])
   \<and> subscript (example_questions [''101'', ''102'', ''103''] [''A?'', ''B?'']) ''question_ids''
     = Inr (JStr (join '', '' (map quoted [''101'', ''102'', ''103''])))
   \<and> subscript (example_questions [''101'', ''102'', ''103''] [''A?'', ''B?'']) ''question_texts''
     = Inr (JStr (join '', '' (map quoted [''A?'', ''B?''])))
   \<and> subscript (example_questions [''101'', ''102'', ''103''] [''A?'', ''B?''])
       ''correct_options_texts''
     = Inr (JStr (join '', '' (map quoted [''a'', ''b'', ''c''])))
   \<and> subscript (example_questions [''101'', ''102'', ''103''] [''A?'', ''B?''])
       ''question_id_competency_definition''
     = Inr (JStr (join '', '' (map quoted [''x'', ''y'', ''z''])))
   \<and> subscript (example_questions [''101'', ''102'', ''103''] [''A?'', ''B?'']) ''options_texts''
     = Inr (JStr (join '', '' (map quoted [''a|b'', ''b|c'', ''c|d''])))
   \<and> subscript example_descriptor ''module_compentency_area'' = Inr (JStr ''Asepsis'')
   \<and> subscript example_descriptor ''competency_type'' = Inr (JStr ''Knowledge'')
   \<and> subscript example_descriptor ''competency_id'' = Inr (JInt 7)
   \<and> subscript example_module_fields ''module_domain'' = Inr (JStr ''Nursing'')
   \<and> length (re_findall_quoted (join '', '' (map quoted [''A?'', ''B?''])))
       < length (re_findall_quoted (join '', '' (map quoted [''101'', ''102'', ''103''])))
   \<and> render_mcq_group example_module_fields (JInt 341) (JStr ''Urinary Catheterization'')
        (example_group [''101'', ''102'', ''103''] [''A?'', ''B?'']) = Inl IndexError"
proof -
  have h1: "subscript (example_group [''101'', ''102'', ''103''] [''A?'', ''B?'']) ''competency''
      = Inr example_descriptor"
    by (simp add: example_group_def)
  have h2: "subscript (example_group [''101'', ''102'', ''103''] [''A?'', ''B?'']) ''question''
      = Inr (example_questions [''101'', ''102'', ''103''] [''A?'', ''B?''])"
    by (simp add: example_group_def)
  have h3: "subscript (example_questions [''101'', ''102'', ''103''] [''A?'', ''B?''])
        ''question_ids''
      = Inr (JStr (join '', '' (map quoted [''101'', ''102'', ''103''])))"
    by (simp add: example_questions_def)
  have h4: "subscript (example_questions [''101'', ''102'', ''103''] [''A?'', ''B?''])
        ''question_texts''
      = Inr (JStr (join '', '' (map quoted [''A?'', ''B?''])))"
    by (simp add: example_questions_def)
  have h5: "subscript (example_questions [''101'', ''102'', ''103''] [''A?'', ''B?''])
        ''correct_options_texts''
      = Inr (JStr (join '', '' (map quoted [''a'', ''b'', ''c''])))"
    by (simp add: example_questions_def)
  have h6: "subscript (example_questions [''101'', ''102'', ''103''] [''A?'', ''B?''])
        ''question_id_competency_definition''
      = Inr (JStr (join '', '' (map quoted [''x'', ''y'', ''z''])))"
    by (simp add: example_questions_def)
  have h7: "subscript (example_questions [''101'', ''102'', ''103''] [''A?'', ''B?''])
        ''options_texts''
      = Inr (JStr (join '', '' (map quoted [''a|b'', ''b|c'', ''c|d''])))"
    by (simp add: example_questions_def)
  have h8: "subscript example_descriptor ''module_compentency_area'' = Inr (JStr ''Asepsis'')"
    by (simp add: example_descriptor_def)
  have h9: "subscript example_descriptor ''competency_type'' = Inr (JStr ''Knowledge'')"
    by (simp add: example_descriptor_def)
  have h10: "subscript example_descriptor ''competency_id'' = Inr (JInt 7)"
    by (simp add: example_descriptor_def)
  have h11: "subscript example_module_fields ''module_domain'' = Inr (JStr ''Nursing'')"
    by (simp add: example_module_fields_def)
  have h12: "length (re_findall_quoted (join '', '' (map quoted [''A?'', ''B?''])))
      < length (re_findall_quoted (join '', '' (map quoted [''101'', ''102'', ''103''])))"
    by (simp add: quoted_def)
  from h12
  have "render_mcq_group example_module_fields (JInt 341) (JStr ''Urinary Catheterization'')
      (example_group [''101'', ''102'', ''103''] [''A?'', ''B?'']) = Inl IndexError"
    using unequal_lists_index_error [OF h1 h2 h3 h4 h5 h6 h7 h8 h9 h10 h11] by blast
  with h1 h2 h3 h4 h5 h6 h7 h8 h9 h10 h11 h12 show ?thesis
    by (intro conjI)
qed

section \<open>Checklists over the budget\<close>

lemma py_iter_len: "py_iter v = Inr xs \<Longrightarrow> py_len v = Inr (length xs)"
  by (cases v) auto

lemma long_run:
  "render_checklist example_module_fields (JInt 341) (JStr ''Urinary Catheterization'')
     (example_checklist_group long_question) = Inr (long_checklist, [ChecklistTooLong])"
  by code_simp

text \<open>
  C6, as the code has it: when the full rendering of a checklist exceeds 2048 characters,
  a warning is logged and the text is rendered again from a shorter template, which keeps
  the \<^verbatim>\<open>Procedural Checklist:\<close> heading with the question text, drops the
  \<^verbatim>\<open>Competency: Procedural Skills (Skill)\<close> line, puts \<^verbatim>\<open>Steps:\<close> in place of the
  \<^verbatim>\<open>Correct sequence (n steps):\<close> line and keeps the step listing; the final truncation to
  2048 characters is applied to that text.
\<close>

theorem checklist_fallback:
  assumes "subscript checklist ''question'' = Inr question"
    and "subscript question ''question_text'' = Inr question_text"
    and "subscript checklist ''option'' = Inr steps"
    and "py_iter steps = Inr items"
    and "mapE step_line items = Inr step_lines"
    and "render_checklist module_fields course_id module_name checklist = Inr (r, ws)"
    and "MAX_CHARS < length (checklist_text_full question_text (length items)
                               (join NL step_lines))"
  shows "subscript r ''embedding_text''
           = Inr (JStr (take 2048
                (''Procedural Checklist: '' @ py_str question_text @ NL
                 @ sp 28 @ ''Steps:'' @ NL
                 @ sp 28 @ join NL step_lines)))
         \<and> hd ws = ChecklistTooLong"
proof -
  have n: "py_len steps = Inr (length items)"
    using assms(4) by (rule py_iter_len)
  from assms(6) obtain module_domain question_id steps_metadata
    where r: "r = JObj
          [(''id'', question_id),
           (''embedding_text'',
              JStr (fst (checklist_embed_text question_text (length items)
                           (join NL step_lines)))),
           (''metadata'', JObj
              [(''doc_type'', JStr ''checklist''),
               (''question_id'', JStr (py_str question_id)),
               (''question_text'', question_text),
               (''total_steps'', JInt (int (length items))),
               (''steps'', JStr (json_dumps (JArr steps_metadata))),
               (''competency_type'', JStr ''Skill''),
               (''course_id'', course_id),
               (''competency_name'', module_name),
               (''module_domain'', module_domain)])]"
      and ws: "ws = snd (checklist_embed_text question_text (length items)
                           (join NL step_lines))"
    using assms(1-5) n
    by (auto simp: render_checklist_def bindE_Inr_iff Let_def case_prod_beta)
  from assms(7)
  have "checklist_embed_text question_text (length items) (join NL step_lines)
      = (take 2048 (checklist_text_short question_text (join NL step_lines)),
         ChecklistTooLong
           # snd (truncate_if_needed
                    (checklist_text_short question_text (join NL step_lines)) MAX_CHARS))"
    by (simp add: checklist_embed_text_def truncate_if_needed_def MAX_CHARS_def Let_def)
  with r ws show ?thesis
    by (simp add: checklist_text_short_def)
qed

theorem checklist_fallback_witness:
  "subscript (example_checklist_group long_question) ''question''
     = Inr (example_question long_question)
   \<and> subscript (example_question long_question) ''question_text'' = Inr long_question
   \<and> subscript (example_checklist_group long_question) ''option'' = Inr example_steps
   \<and> py_iter example_steps
     = Inr [JObj [(''option_sequence'', JInt 1), (''option_text'', JStr ''Wash hands'')],
            JObj [(''option_sequence'', JInt 2), (''option_text'', JStr ''Open kit'')],
            JObj [(''option_sequence'', JInt 3), (''option_text'', JStr ''Clean'')],
            JObj [(''option_sequence'', JInt 4), (''option_text'', JStr ''Insert'')]]
   \<and> mapE step_line
        [JObj [(''option_sequence'', JInt 1), (''option_text'', JStr ''Wash hands'')],
         JObj [(''option_sequence'', JInt 2), (''option_text'', JStr ''Open kit'')],
         JObj [(''option_sequence'', JInt 3), (''option_text'', JStr ''Clean'')],
         JObj [(''option_sequence'', JInt 4), (''option_text'', JStr ''Insert'')]]
     = Inr example_step_lines
   \<and> render_checklist example_module_fields (JInt 341) (JStr ''Urinary Catheterization'')
        (example_checklist_group long_question) = Inr (long_checklist, [ChecklistTooLong])
   \<and> MAX_CHARS < length (checklist_text_full long_question 4 (join NL example_step_lines))
   \<and> subscript long_checklist ''embedding_text''
        = Inr (JStr (take 2048
             (''Procedural Checklist: '' @ py_str long_question @ NL
              @ sp 28 @ ''Steps:'' @ NL
              @ sp 28 @ join NL example_step_lines)))
   \<and> hd [ChecklistTooLong] = ChecklistTooLong"
proof -
  have h1: "subscript (example_checklist_group long_question) ''question''
      = Inr (example_question long_question)"
    by (simp add: example_checklist_group_def)
  have h2: "subscript (example_question long_question) ''question_text'' = Inr long_question"
    by (simp add: example_question_def)
  have h3: "subscript (example_checklist_group long_question) ''option'' = Inr example_steps"
    by (simp add: example_checklist_group_def)
  have h4: "py_iter example_steps
      = Inr [JObj [(''option_sequence'', JInt 1), (''option_text'', JStr ''Wash hands'')],
             JObj [(''option_sequence'', JInt 2), (''option_text'', JStr ''Open kit'')],
             JObj [(''option_sequence'', JInt 3), (''option_text'', JStr ''Clean'')],
             JObj [(''option_sequence'', JInt 4), (''option_text'', JStr ''Insert'')]]"
    by (simp add: example_steps_def)
  have h5: "mapE step_line
        [JObj [(''option_sequence'', JInt 1), (''option_text'', JStr ''Wash hands'')],
         JObj [(''option_sequence'', JInt 2), (''option_text'', JStr ''Open kit'')],
         JObj [(''option_sequence'', JInt 3), (''option_text'', JStr ''Clean'')],
         JObj [(''option_sequence'', JInt 4), (''option_text'', JStr ''Insert'')]]
      = Inr example_step_lines"
    by code_simp
  have h7: "MAX_CHARS < length (checklist_text_full long_question 4 (join NL example_step_lines))"
    by code_simp
  have h7': "MAX_CHARS < length (checklist_text_full long_question
      (length [JObj [(''option_sequence'', JInt 1), (''option_text'', JStr ''Wash hands'')],
               JObj [(''option_sequence'', JInt 2), (''option_text'', JStr ''Open kit'')],
               JObj [(''option_sequence'', JInt 3), (''option_text'', JStr ''Clean'')],
               JObj [(''option_sequence'', JInt 4), (''option_text'', JStr ''Insert'')]])
      (join NL example_step_lines))"
    by code_simp
  from checklist_fallback [OF h1 h2 h3 h4 h5 long_run h7']
  have "subscript long_checklist ''embedding_text''
        = Inr (JStr (take 2048
             (''Procedural Checklist: '' @ py_str long_question @ NL
              @ sp 28 @ ''Steps:'' @ NL
              @ sp 28 @ join NL example_step_lines)))
      \<and> hd [ChecklistTooLong] = ChecklistTooLong" .
  with h1 h2 h3 h4 h5 long_run h7 show ?thesis
    by (intro conjI) simp_all
qed

text \<open>
  C6 as stated fails: the text rendered for the long checklist still opens with the
  \<^verbatim>\<open>Procedural Checklist:\<close> heading; only the competency line and the step count went.
\<close>

theorem checklist_fallback_counterexample:
  "MAX_CHARS < length (checklist_text_full long_question 4 (join NL example_step_lines))
   \<and> render_checklist example_module_fields (JInt 341) (JStr ''Urinary Catheterization'')
        (example_checklist_group long_question) = Inr (long_checklist, [ChecklistTooLong])
   \<and> subscript long_checklist ''embedding_text''
        = Inr (JStr (''Procedural Checklist: '' @ replicate 1900 (CHR ''a'') @ NL
                     @ sp 28 @ ''Steps:'' @ NL
                     @ sp 28 @ ''1. Wash hands'' @ NL @ ''2. Open kit'' @ NL @ ''3. Clean''
                     @ NL @ ''4. Insert''))
   \<and> subscript long_checklist ''embedding_text''
        \<noteq> Inr (JStr (replicate 1900 (CHR ''a'') @ NL
                     @ ''1. Wash hands'' @ NL @ ''2. Open kit'' @ NL @ ''3. Clean''
                     @ NL @ ''4. Insert''))"
proof -
  have "MAX_CHARS < length (checklist_text_full long_question 4 (join NL example_step_lines))"
    by code_simp
  moreover have "subscript long_checklist ''embedding_text''
        = Inr (JStr (''Procedural Checklist: '' @ replicate 1900 (CHR ''a'') @ NL
                     @ sp 28 @ ''Steps:'' @ NL
                     @ sp 28 @ ''1. Wash hands'' @ NL @ ''2. Open kit'' @ NL @ ''3. Clean''
                     @ NL @ ''4. Insert''))"
    by (simp add: long_checklist_def checklist_record_def)
  moreover have "(''Procedural Checklist: '' @ replicate 1900 (CHR ''a'') @ NL
                     @ sp 28 @ ''Steps:'' @ NL
                     @ sp 28 @ ''1. Wash hands'' @ NL @ ''2. Open kit'' @ NL @ ''3. Clean''
                     @ NL @ ''4. Insert'')
        \<noteq> (replicate 1900 (CHR ''a'') @ NL
                     @ ''1. Wash hands'' @ NL @ ''2. Open kit'' @ NL @ ''3. Clean''
                     @ NL @ ''4. Insert'')"
    by (simp add: replicate_Suc [symmetric] del: replicate_Suc replicate.simps)
  ultimately show ?thesis
    using long_run by simp
qed

section \<open>The Loader\<close>

lemma load_module_documents_cases:
  assumes "load_module_documents fs json_path = Inr (documents, ids, collection_name)"
  obtains data module_info cs qs ks comps mcqs checklists
  where "fs json_path = Some data"
    and "subscript data ''module_info'' = Inr module_info"
    and "collection_name_of module_info = Inr collection_name"
    and "bindE (subscript data ''competencies'') py_iter = Inr cs"
    and "mapE load_record cs = Inr comps"
    and "bindE (subscript data ''mcqs'') py_iter = Inr qs"
    and "mapE load_record qs = Inr mcqs"
    and "bindE (subscript data ''checklists'') py_iter = Inr ks"
    and "mapE load_record ks = Inr checklists"
    and "documents = map fst (comps @ mcqs @ checklists)"
    and "ids = map snd (comps @ mcqs @ checklists)"
proof -
  from assms obtain data where data: "fs json_path = Some data"
    by (cases "fs json_path") (auto simp: load_module_documents_def)
  with assms
  have "bindE (subscript data ''module_info'') (\<lambda>module_info.
          bindE (collection_name_of module_info) (\<lambda>collection_name.
          bindE (bindE (bindE (subscript data ''competencies'') py_iter) (mapE load_record))
            (\<lambda>comps.
          bindE (bindE (bindE (subscript data ''mcqs'') py_iter) (mapE load_record))
            (\<lambda>mcqs.
          bindE (bindE (bindE (subscript data ''checklists'') py_iter) (mapE load_record))
            (\<lambda>checklists.
            Inr (map fst (comps @ mcqs @ checklists),
                 map snd (comps @ mcqs @ checklists),
                 collection_name))))))
        = Inr (documents, ids, collection_name)"
    unfolding load_module_documents_def by simp
  then obtain module_info cs qs ks comps mcqs checklists
    where "subscript data ''module_info'' = Inr module_info"
      "collection_name_of module_info = Inr collection_name"
      "bindE (subscript data ''competencies'') py_iter = Inr cs"
      "mapE load_record cs = Inr comps"
      "bindE (subscript data ''mcqs'') py_iter = Inr qs"
      "mapE load_record qs = Inr mcqs"
      "bindE (subscript data ''checklists'') py_iter = Inr ks"
      "mapE load_record ks = Inr checklists"
      "documents = map fst (comps @ mcqs @ checklists)"
      "ids = map snd (comps @ mcqs @ checklists)"
    unfolding bindE_Inr_iff by auto
  with data that show thesis
    by blast
qed

lemma example_load:
  "load_module_documents (processed_files example_bundle) PROCESSED_JSON
     = Inr (fst (projr (load_module_documents (processed_files example_bundle) PROCESSED_JSON)),
            [''7'', ''101'', ''102'', ''103'', ''42''],
            ''module_341_urinary_catheterization'')"
proof -
  have "map_sum id (\<lambda>r. (fst (snd r), snd (snd r)))
          (load_module_documents (processed_files example_bundle) PROCESSED_JSON)
        = Inr ([''7'', ''101'', ''102'', ''103'', ''42''], ''module_341_urinary_catheterization'')"
    by code_simp
  then show ?thesis
    by (cases "load_module_documents (processed_files example_bundle) PROCESSED_JSON") auto
qed

subsection \<open>Upserts in sequence\<close>

lemma length_update:
  "length (AList.update k v al) = (if k \<in> fst ` set al then length al else Suc (length al))"
  by (induction al) auto

lemma fold_update_map_of:
  "map_of (fold (\<lambda>x. AList.update (key x) (val x)) xs al)
     = map_of al ++ map_of (rev (map (\<lambda>x. (key x, val x)) xs))"
proof (induction xs arbitrary: al)
  case Nil
  then show ?case by simp
next
  case (Cons x xs)
  have "map_of (fold (\<lambda>x. AList.update (key x) (val x)) (x # xs) al)
      = map_of (AList.update (key x) (val x) al)
          ++ map_of (rev (map (\<lambda>x. (key x, val x)) xs))"
    using Cons.IH [of "AList.update (key x) (val x) al"] by simp
  also have "\<dots> = map_of al ++ map_of (rev (map (\<lambda>x. (key x, val x)) (x # xs)))"
    by (simp add: update_conv')
  finally show ?case .
qed

lemma fold_update_keys:
  "fst ` set (fold (\<lambda>x. AList.update (key x) (val x)) xs al) = key ` set xs \<union> fst ` set al"
  by (induction xs arbitrary: al) (auto simp: dom_update)

lemma fold_update_length:
  "key ` set xs \<subseteq> fst ` set al \<Longrightarrow>
     length (fold (\<lambda>x. AList.update (key x) (val x)) xs al) = length al"
proof (induction xs arbitrary: al)
  case Nil
  then show ?case by simp
next
  case (Cons x xs)
  from Cons.prems have "key ` set xs \<subseteq> fst ` set (AList.update (key x) (val x) al)"
    by (auto simp: dom_update)
  then have "length (fold (\<lambda>x. AList.update (key x) (val x)) xs
                       (AList.update (key x) (val x) al))
      = length (AList.update (key x) (val x) al)"
    by (rule Cons.IH)
  with Cons.prems show ?case
    by (simp add: length_update)
qed

subsection \<open>Collection naming\<close>

text \<open>
  C5: the collection name is \<^verbatim>\<open>module_\<close>, the course id as \<^verbatim>\<open>str\<close> gives it, an
  underscore, and the module name in lower case with every space replaced by an underscore.
  It is computed from the \<^verbatim>\<open>module_info\<close> block alone, so two runs on the same bundle, or on
  bundles with the same block, address the same collection.
\<close>

theorem collection_name_stable:
  assumes "subscript module_info ''course_id'' = Inr course_id"
    and "subscript module_info ''competency_name'' = Inr (JStr name)"
  shows "collection_name_of module_info
           = Inr (''module_'' @ py_str course_id @ ''_''
                  @ map (\<lambda>c. if c = CHR '' '' then CHR ''_'' else c) (map lower_char name))
       \<and> (fs json_path = Some data \<and> subscript data ''module_info'' = Inr module_info
            \<and> load_module_documents fs json_path = Inr (documents, ids, collection_name) \<longrightarrow>
          collection_name = ''module_'' @ py_str course_id @ ''_''
                  @ map (\<lambda>c. if c = CHR '' '' then CHR ''_'' else c) (map lower_char name))"
proof -
  have n: "collection_name_of module_info
           = Inr (''module_'' @ py_str course_id @ ''_''
                  @ map (\<lambda>c. if c = CHR '' '' then CHR ''_'' else c) (map lower_char name))"
    using assms by (simp add: collection_name_of_def str_lower_def replace_space_def)
  moreover have "collection_name = ''module_'' @ py_str course_id @ ''_''
                  @ map (\<lambda>c. if c = CHR '' '' then CHR ''_'' else c) (map lower_char name)"
    if "fs json_path = Some data" "subscript data ''module_info'' = Inr module_info"
      "load_module_documents fs json_path = Inr (documents, ids, collection_name)"
  proof -
    from that(3) obtain data' module_info'
      where "fs json_path = Some data'" "subscript data' ''module_info'' = Inr module_info'"
        "collection_name_of module_info' = Inr collection_name"
      by (rule load_module_documents_cases)
    with that(1,2) n show ?thesis
      by simp
  qed
  ultimately show ?thesis
    by blast
qed

theorem collection_name_stable_witness:
  "subscript example_module_fields ''course_id'' = Inr (JInt 341)
   \<and> subscript example_module_fields ''competency_name'' = Inr (JStr ''Urinary Catheterization'')
   \<and> processed_files example_bundle PROCESSED_JSON = Some example_bundle
   \<and> subscript example_bundle ''module_info'' = Inr example_module_fields
   \<and> (\<exists>documents. load_module_documents (processed_files example_bundle) PROCESSED_JSON
         = Inr (documents, [''7'', ''101'', ''102'', ''103'', ''42''],
                ''module_341_urinary_catheterization''))
   \<and> collection_name_of example_module_fields = Inr ''module_341_urinary_catheterization''
   \<and> ''module_341_urinary_catheterization''
       = ''module_'' @ py_str (JInt 341) @ ''_''
         @ map (\<lambda>c. if c = CHR '' '' then CHR ''_'' else c)
             (map lower_char ''Urinary Catheterization'')"
proof -
  have h1: "subscript example_module_fields ''course_id'' = Inr (JInt 341)"
    by (simp add: example_module_fields_def)
  have h2: "subscript example_module_fields ''competency_name''
      = Inr (JStr ''Urinary Catheterization'')"
    by (simp add: example_module_fields_def)
  have h3: "processed_files example_bundle PROCESSED_JSON = Some example_bundle"
    by (simp add: processed_files_def)
  have h4: "subscript example_bundle ''module_info'' = Inr example_module_fields"
    by (simp add: example_bundle_def example_module_fields_def)
  have e: "''module_341_urinary_catheterization''
       = ''module_'' @ py_str (JInt 341) @ ''_''
         @ map (\<lambda>c. if c = CHR '' '' then CHR ''_'' else c)
             (map lower_char ''Urinary Catheterization'')"
    by code_simp
  from collection_name_stable [OF h1 h2, of "processed_files example_bundle" PROCESSED_JSON
      example_bundle _ "[''7'', ''101'', ''102'', ''103'', ''42'']"
      "''module_341_urinary_catheterization''"] h3 h4 example_load e
  have "collection_name_of example_module_fields = Inr ''module_341_urinary_catheterization''"
    by simp
  with h1 h2 h3 h4 example_load e show ?thesis
    by blast
qed

subsection \<open>Upsert keys and order\<close>

lemma load_record_parts:
  "load_record r = Inr di \<Longrightarrow> record_key r = Inr (snd di) \<and> record_document r = Inr (fst di)"
  by (auto simp: load_record_def record_key_def record_document_def bindE_Inr_iff)

lemma mapE_load_record_parts:
  "mapE load_record rs = Inr dis \<Longrightarrow>
     map record_key rs = map Inr (map snd dis)
     \<and> map record_document rs = map Inr (map fst dis)"
proof (induction rs arbitrary: dis)
  case Nil
  then show ?case by simp
next
  case (Cons r rs)
  then obtain di dis' where "load_record r = Inr di" "mapE load_record rs = Inr dis'"
    "dis = di # dis'"
    by (auto simp: bindE_Inr_iff)
  with Cons.IH [of dis'] show ?case
    by (simp add: load_record_parts)
qed

lemma bundle_section_iter:
  "bindE (subscript data key) py_iter = Inr rs \<Longrightarrow> bundle_section data key = rs"
  by (simp add: bundle_section_def)

lemma digits_value_dec_nat: "digits_value (dec_nat n) = n"
proof (induction n rule: dec_nat.induct)
  case (1 n)
  show ?case
  proof (cases "n < 10")
    case True
    then have "(48 + n) mod 256 = 48 + n"
      by simp
    with True show ?thesis
      by (subst dec_nat.simps) (simp add: digits_value_def)
  next
    case False
    with 1 have "digits_value (dec_nat (n div 10)) = n div 10"
      by simp
    moreover have "(48 + n mod 10) mod 256 = 48 + n mod 10"
      by (simp add: mod_less)
    ultimately show ?thesis
      using False by (subst dec_nat.simps) (simp add: digits_value_def)
  qed
qed

lemma add_documents_fold:
  "add_documents embeddings c documents ids
     = fold (\<lambda>di. upsert (snd di) (document_entry embeddings (fst di))) (zip documents ids) c"
  by (simp add: add_documents_def document_entry_def)

lemma zip_swap_map:
  "map (\<lambda>di. (snd di, f (fst di))) (zip ds ids) = zip ids (map f ds)"
proof (induction ds arbitrary: ids)
  case Nil
  then show ?case by simp
next
  case (Cons d ds)
  then show ?case by (cases ids) simp_all
qed

lemma fold_upsert_get:
  "collection_get
     (fold (\<lambda>di. upsert (snd di) (document_entry embeddings (fst di))) (zip documents ids) c) k
   = (case map_of (rev (zip ids (map (document_entry embeddings) documents))) k of
        Some e \<Rightarrow> Some e
      | None \<Rightarrow> collection_get c k)"
proof -
  have "map_of (fold (\<lambda>di. AList.update (snd di) (document_entry embeddings (fst di)))
                  (zip documents ids) c)
      = map_of c ++ map_of (rev (map (\<lambda>di. (snd di, document_entry embeddings (fst di)))
                                   (zip documents ids)))"
    by (rule fold_update_map_of)
  then show ?thesis
    unfolding collection_get_def upsert_def zip_swap_map
    by (simp add: map_add_def)
qed

lemma dec_nat_digits: "list_all is_digit (dec_nat n)"
proof (induction n rule: dec_nat.induct)
  case (1 n)
  have d: "is_digit (char_of (48 + k))" if "k < 10" for k :: nat
  proof -
    from that have "(48 + k) mod 256 = 48 + k"
      by simp
    with that show ?thesis
      by (simp add: is_digit_def)
  qed
  show ?case
  proof (cases "n < 10")
    case True
    then show ?thesis
      by (subst dec_nat.simps) (simp add: d)
  next
    case False
    with 1 have "list_all is_digit (dec_nat (n div 10))"
      by simp
    moreover have "is_digit (char_of (48 + n mod 10))"
      by (rule d) simp
    ultimately show ?thesis
      using False by (subst dec_nat.simps) simp
  qed
qed

lemma dec_nat_nonempty: "dec_nat n \<noteq> []"
  by (subst dec_nat.simps) simp

lemma dec_nat_no_leading_zero: "0 < n \<Longrightarrow> hd (dec_nat n) \<noteq> CHR ''0''"
proof (induction n rule: dec_nat.induct)
  case (1 n)
  show ?case
  proof (cases "n < 10")
    case True
    have "char_of (48 + n) \<noteq> CHR ''0''"
    proof
      assume "char_of (48 + n) = CHR ''0''"
      then have "(of_char (char_of (48 + n)) :: nat) = of_char (CHR ''0'')"
        by simp
      moreover from True have "(48 + n) mod 256 = 48 + n"
        by simp
      ultimately show False
        using 1(2) by simp
    qed
    with True show ?thesis
      by (subst dec_nat.simps) simp
  next
    case False
    then have "0 < n div 10"
      by simp
    with 1(1) False have "hd (dec_nat (n div 10)) \<noteq> CHR ''0''"
      by simp
    with False show ?thesis
      by (subst dec_nat.simps) (simp add: dec_nat_nonempty)
  qed
qed

lemma build_vectorstore_result:
  assumes "load_module_documents fs PROCESSED_JSON = Inr (documents, ids, collection_name)"
  shows "build_vectorstore embeddings fs chroma
     = Inr (chroma(collection_name :=
              fold (\<lambda>di. upsert (snd di) (document_entry embeddings (fst di)))
                (zip documents ids) (chroma collection_name)),
            if 0 < collection_count (chroma collection_name)
            then [CollectionExists (collection_count (chroma collection_name)),
                  Upserting (length documents)]
            else [])"
  using assms by (simp add: build_vectorstore_def Let_def add_documents_fold)

lemma example_first_run:
  "build_vectorstore toy_embedding (processed_files example_bundle) empty_chroma
     = Inr (first_load, [])"
proof -
  have "map_sum id snd
          (build_vectorstore toy_embedding (processed_files example_bundle) empty_chroma)
        = Inr []"
    by code_simp
  then show ?thesis
    by (cases "build_vectorstore toy_embedding (processed_files example_bundle) empty_chroma")
       (auto simp: first_load_def)
qed

text \<open>
  C10: what the Loader submits is, record by record in the order competencies, questions,
  checklists, the document built from the record and the key \<^verbatim>\<open>str(record['id'])\<close>: the
  store the run returns is the old one with these upserts applied, in that order, to the
  collection of the module, so that under each key the entry of the last record with that
  key is found, and the entries of other keys are as before. An integer id gives its
  decimal digits, without leading zero (with a minus sign when negative), and the
  Normalizer stores a checklist's question id as the export has it, so an integer id
  reaches the Loader as an integer.
\<close>

theorem upsert_keys_in_order:
  assumes "fs json_path = Some data"
    and "load_module_documents fs json_path = Inr (documents, ids, collection_name)"
  shows "map record_key (bundle_records data) = map Inr ids
       \<and> map record_document (bundle_records data) = map Inr documents
       \<and> (subscript r ''id'' = Inr (JInt n) \<longrightarrow>
            record_key r = Inr (if n < 0 then CHR ''-'' # dec_nat (nat (- n)) else dec_nat (nat n)))
       \<and> digits_value (dec_nat m) = m
       \<and> (subscript checklist ''question'' = Inr question
            \<and> render_checklist module_fields course_id module_name checklist = Inr (rec, ws) \<longrightarrow>
            subscript rec ''id'' = subscript question ''question_id'')
       \<and> length ids = length (bundle_records data)
       \<and> length documents = length (bundle_records data)
       \<and> (json_path = PROCESSED_JSON \<longrightarrow>
            build_vectorstore embeddings fs chroma
              = Inr (chroma(collection_name :=
                       fold (\<lambda>di. upsert (snd di) (document_entry embeddings (fst di)))
                         (zip documents ids) (chroma collection_name)),
                     if 0 < collection_count (chroma collection_name)
                     then [CollectionExists (collection_count (chroma collection_name)),
                           Upserting (length documents)]
                     else []))
       \<and> collection_get
            (fold (\<lambda>di. upsert (snd di) (document_entry embeddings (fst di)))
               (zip documents ids) c) k
           = (case map_of (rev (zip ids (map (document_entry embeddings) documents))) k of
                Some e \<Rightarrow> Some e
              | None \<Rightarrow> collection_get c k)
       \<and> list_all is_digit (dec_nat m)
       \<and> dec_nat m \<noteq> []
       \<and> (0 < m \<longrightarrow> hd (dec_nat m) \<noteq> CHR ''0'')"
proof -
  from assms(2) obtain data' cs qs ks comps mcqs checklists
    where d: "fs json_path = Some data'"
      and cs: "bindE (subscript data' ''competencies'') py_iter = Inr cs"
        "mapE load_record cs = Inr comps"
      and qs: "bindE (subscript data' ''mcqs'') py_iter = Inr qs"
        "mapE load_record qs = Inr mcqs"
      and ks: "bindE (subscript data' ''checklists'') py_iter = Inr ks"
        "mapE load_record ks = Inr checklists"
      and out: "documents = map fst (comps @ mcqs @ checklists)"
        "ids = map snd (comps @ mcqs @ checklists)"
    by (rule load_module_documents_cases)
  from d assms(1) have eq: "data' = data"
    by simp
  have recs: "bundle_records data = cs @ qs @ ks"
    using cs(1) qs(1) ks(1) eq by (simp add: bundle_records_def bundle_section_iter)
  have keys: "map record_key (bundle_records data) = map Inr ids"
    using recs out mapE_load_record_parts [OF cs(2)] mapE_load_record_parts [OF qs(2)]
      mapE_load_record_parts [OF ks(2)]
    by simp
  have docs: "map record_document (bundle_records data) = map Inr documents"
    using recs out mapE_load_record_parts [OF cs(2)] mapE_load_record_parts [OF qs(2)]
      mapE_load_record_parts [OF ks(2)]
    by simp
  have int_key: "subscript r ''id'' = Inr (JInt n) \<longrightarrow>
      record_key r = Inr (if n < 0 then CHR ''-'' # dec_nat (nat (- n)) else dec_nat (nat n))"
    by (simp add: record_key_def dec_int_def)
  have raw_id: "subscript checklist ''question'' = Inr question
      \<and> render_checklist module_fields course_id module_name checklist = Inr (rec, ws) \<longrightarrow>
      subscript rec ''id'' = subscript question ''question_id''"
    by (auto simp: render_checklist_def bindE_Inr_iff Let_def case_prod_beta)
  have len_ids: "length ids = length (bundle_records data)"
    using arg_cong [OF keys, of length] by simp
  have len_docs: "length documents = length (bundle_records data)"
    using arg_cong [OF docs, of length] by simp
  have run: "json_path = PROCESSED_JSON \<longrightarrow>
      build_vectorstore embeddings fs chroma
        = Inr (chroma(collection_name :=
                 fold (\<lambda>di. upsert (snd di) (document_entry embeddings (fst di)))
                   (zip documents ids) (chroma collection_name)),
               if 0 < collection_count (chroma collection_name)
               then [CollectionExists (collection_count (chroma collection_name)),
                     Upserting (length documents)]
               else [])"
  proof
    assume "json_path = PROCESSED_JSON"
    with assms(2)
    have "load_module_documents fs PROCESSED_JSON = Inr (documents, ids, collection_name)"
      by simp
    then show "build_vectorstore embeddings fs chroma
        = Inr (chroma(collection_name :=
                 fold (\<lambda>di. upsert (snd di) (document_entry embeddings (fst di)))
                   (zip documents ids) (chroma collection_name)),
               if 0 < collection_count (chroma collection_name)
               then [CollectionExists (collection_count (chroma collection_name)),
                     Upserting (length documents)]
               else [])"
      by (rule build_vectorstore_result)
  qed
  note stored = fold_upsert_get [of embeddings documents ids c k]
  note digits = digits_value_dec_nat [of m] dec_nat_digits [of m] dec_nat_nonempty [of m]
  have lead: "0 < m \<longrightarrow> hd (dec_nat m) \<noteq> CHR ''0''"
    by (simp add: dec_nat_no_leading_zero)
  from keys docs int_key digits(1) raw_id len_ids len_docs run stored digits(2,3) lead
  show ?thesis
    by (intro conjI)
qed

theorem upsert_keys_in_order_witness:
  "processed_files example_bundle PROCESSED_JSON = Some example_bundle
   \<and> (\<exists>documents. load_module_documents (processed_files example_bundle) PROCESSED_JSON
         = Inr (documents, [''7'', ''101'', ''102'', ''103'', ''42''],
                ''module_341_urinary_catheterization'')
         \<and> map record_document (bundle_records example_bundle) = map Inr documents
         \<and> first_load
             = empty_chroma(''module_341_urinary_catheterization'' :=
                 fold (\<lambda>di. upsert (snd di) (document_entry toy_embedding (fst di)))
                   (zip documents [''7'', ''101'', ''102'', ''103'', ''42''])
                   (empty_chroma ''module_341_urinary_catheterization'')))
   \<and> build_vectorstore toy_embedding (processed_files example_bundle) empty_chroma
       = Inr (first_load, [])
   \<and> map fst (first_load ''module_341_urinary_catheterization'')
       = [''7'', ''101'', ''102'', ''103'', ''42'']
   \<and> bundle_records example_bundle
       = [example_competency,
          example_mcq ''101'' ''A?'' ''a|b'' ''a'' ''x'',
          example_mcq ''102'' ''B?'' ''b|c'' ''b'' ''y'',
          example_mcq ''103'' ''C?'' ''c|d'' ''c'' ''z'',
          example_checklist]
   \<and> map record_key (bundle_records example_bundle)
       = map Inr [''7'', ''101'', ''102'', ''103'', ''42'']
   \<and> subscript (example_checklist_group (JStr ''Insert catheter'')) ''question''
       = Inr (example_question (JStr ''Insert catheter''))
   \<and> subscript (example_question (JStr ''Insert catheter'')) ''question_id'' = Inr (JInt 42)
   \<and> render_checklist example_module_fields (JInt 341) (JStr ''Urinary Catheterization'')
        (example_checklist_group (JStr ''Insert catheter'')) = Inr (example_checklist, [])
   \<and> subscript example_checklist ''id'' = Inr (JInt 42)
   \<and> record_key example_checklist = Inr ''42''
   \<and> (0::nat) < 42 \<and> hd (dec_nat 42) \<noteq> CHR ''0''"
proof -
  have h1: "processed_files example_bundle PROCESSED_JSON = Some example_bundle"
    by (simp add: processed_files_def)
  have h3: "subscript (example_checklist_group (JStr ''Insert catheter'')) ''question''
      = Inr (example_question (JStr ''Insert catheter''))"
    by (simp add: example_checklist_group_def)
  have h4: "subscript (example_question (JStr ''Insert catheter'')) ''question_id''
      = Inr (JInt 42)"
    by (simp add: example_question_def)
  have recs: "bundle_records example_bundle
       = [example_competency,
          example_mcq ''101'' ''A?'' ''a|b'' ''a'' ''x'',
          example_mcq ''102'' ''B?'' ''b|c'' ''b'' ''y'',
          example_mcq ''103'' ''C?'' ''c|d'' ''c'' ''z'',
          example_checklist]"
    by (simp add: bundle_records_def bundle_section_def example_bundle_def)
  have digits: "(if (42::int) < 0 then CHR ''-'' # dec_nat (nat (- 42)) else dec_nat (nat 42))
      = ''42''"
    by code_simp
  have stored_keys: "map fst (first_load ''module_341_urinary_catheterization'')
       = [''7'', ''101'', ''102'', ''103'', ''42'']"
    by code_simp
  have pos: "(0::nat) < 42"
    by simp
  note t = upsert_keys_in_order [OF h1 example_load,
      where r = example_checklist and n = 42 and m = 42
        and checklist = "example_checklist_group (JStr ''Insert catheter'')"
        and question = "example_question (JStr ''Insert catheter'')"
        and module_fields = example_module_fields and course_id = "JInt 341"
        and ?module_name = "JStr ''Urinary Catheterization''"
        and rec = example_checklist and ws = "[]"
        and embeddings = toy_embedding and chroma = empty_chroma]
  from t h3 h4 example_checklist_run
  have id: "subscript example_checklist ''id'' = Inr (JInt 42)"
    by simp
  with t digits have key: "record_key example_checklist = Inr ''42''"
    by simp
  from t have keys: "map record_key (bundle_records example_bundle)
       = map Inr [''7'', ''101'', ''102'', ''103'', ''42'']"
    by blast
  from t pos have lead: "hd (dec_nat 42) \<noteq> CHR ''0''"
    by blast
  from t have "build_vectorstore toy_embedding (processed_files example_bundle) empty_chroma
      = Inr (empty_chroma(''module_341_urinary_catheterization'' :=
               fold (\<lambda>di. upsert (snd di) (document_entry toy_embedding (fst di)))
                 (zip (fst (projr (load_module_documents (processed_files example_bundle)
                                     PROCESSED_JSON)))
                    [''7'', ''101'', ''102'', ''103'', ''42''])
                 (empty_chroma ''module_341_urinary_catheterization'')),
             if 0 < collection_count (empty_chroma ''module_341_urinary_catheterization'')
             then [CollectionExists
                     (collection_count (empty_chroma ''module_341_urinary_catheterization'')),
                   Upserting (length (fst (projr (load_module_documents
                     (processed_files example_bundle) PROCESSED_JSON))))]
             else [])"
    by blast
  with example_first_run
  have store: "first_load
      = empty_chroma(''module_341_urinary_catheterization'' :=
               fold (\<lambda>di. upsert (snd di) (document_entry toy_embedding (fst di)))
                 (zip (fst (projr (load_module_documents (processed_files example_bundle)
                                     PROCESSED_JSON)))
                    [''7'', ''101'', ''102'', ''103'', ''42''])
                 (empty_chroma ''module_341_urinary_catheterization''))"
    by simp
  from t have docs: "map record_document (bundle_records example_bundle)
      = map Inr (fst (projr (load_module_documents (processed_files example_bundle)
                               PROCESSED_JSON)))"
    by blast
  from example_load docs store
  have ex: "\<exists>documents. load_module_documents (processed_files example_bundle) PROCESSED_JSON
         = Inr (documents, [''7'', ''101'', ''102'', ''103'', ''42''],
                ''module_341_urinary_catheterization'')
         \<and> map record_document (bundle_records example_bundle) = map Inr documents
         \<and> first_load
             = empty_chroma(''module_341_urinary_catheterization'' :=
                 fold (\<lambda>di. upsert (snd di) (document_entry toy_embedding (fst di)))
                   (zip documents [''7'', ''101'', ''102'', ''103'', ''42''])
                   (empty_chroma ''module_341_urinary_catheterization''))"
    by blast
  from h1 ex example_first_run stored_keys recs keys h3 h4 example_checklist_run id key pos lead
  show ?thesis
    by (intro conjI)
qed

subsection \<open>Idempotent load\<close>

lemma add_documents_again_count:
  "collection_count (add_documents e (add_documents e c documents ids) documents ids)
     = collection_count (add_documents e c documents ids)"
  unfolding add_documents_def collection_count_def upsert_def
  by (rule fold_update_length) (simp add: fold_update_keys)

lemma add_documents_again_get:
  "collection_get (add_documents e (add_documents e c documents ids) documents ids) k
     = collection_get (add_documents e c documents ids) k"
  unfolding add_documents_def collection_get_def upsert_def
  by (simp add: fold_update_map_of map_add_def split: option.splits)

text \<open>
  C1: a second run of the Loader on an identical bundle goes through, and leaves every
  collection with the count it had before that run and with the same entry under every id.
  The store is the one the spec describes: an upsert puts the entry under its id, leaves
  the other ids as they are, and makes the count grow by one exactly when the id is new.
\<close>

theorem loader_idempotent:
  assumes "build_vectorstore embeddings fs chroma = Inr (chroma1, ws1)"
    and "fs' PROCESSED_JSON = fs PROCESSED_JSON"
  shows "(\<exists>chroma2 ws2.
           build_vectorstore embeddings fs' chroma1 = Inr (chroma2, ws2)
           \<and> (\<forall>name. collection_count (chroma2 name) = collection_count (chroma1 name))
           \<and> (\<forall>name k. collection_get (chroma2 name) k = collection_get (chroma1 name) k))
       \<and> collection_get (upsert i e c) i = Some e
       \<and> (j \<noteq> i \<longrightarrow> collection_get (upsert i e c) j = collection_get c j)
       \<and> collection_count (upsert i e c)
           = (if collection_get c i = None then Suc (collection_count c)
              else collection_count c)"
proof -
  have u1: "collection_get (upsert i e c) i = Some e"
    by (simp add: collection_get_def upsert_def update_conv')
  have u2: "j \<noteq> i \<longrightarrow> collection_get (upsert i e c) j = collection_get c j"
    by (simp add: collection_get_def upsert_def update_conv')
  have u3: "collection_count (upsert i e c)
           = (if collection_get c i = None then Suc (collection_count c)
              else collection_count c)"
    by (simp add: collection_get_def collection_count_def upsert_def length_update
                  map_of_eq_None_iff)
  from assms(1) obtain documents ids collection_name
    where l: "load_module_documents fs PROCESSED_JSON = Inr (documents, ids, collection_name)"
      and c1: "chroma1 = chroma(collection_name :=
                 add_documents embeddings (chroma collection_name) documents ids)"
    by (auto simp: build_vectorstore_def bindE_Inr_iff Let_def)
  define chroma2 where "chroma2 = chroma1(collection_name :=
      add_documents embeddings (chroma1 collection_name) documents ids)"
  from assms(2) have "load_module_documents fs' PROCESSED_JSON
      = load_module_documents fs PROCESSED_JSON"
    by (simp add: load_module_documents_def)
  with l have "\<exists>ws2. build_vectorstore embeddings fs' chroma1 = Inr (chroma2, ws2)"
    by (simp add: build_vectorstore_def Let_def chroma2_def)
  moreover have "collection_count (chroma2 name) = collection_count (chroma1 name)" for name
    by (simp add: chroma2_def c1 add_documents_again_count)
  moreover have "collection_get (chroma2 name) k = collection_get (chroma1 name) k" for name k
    by (simp add: chroma2_def c1 add_documents_again_get)
  ultimately have "\<exists>chroma2 ws2.
           build_vectorstore embeddings fs' chroma1 = Inr (chroma2, ws2)
           \<and> (\<forall>name. collection_count (chroma2 name) = collection_count (chroma1 name))
           \<and> (\<forall>name k. collection_get (chroma2 name) k = collection_get (chroma1 name) k)"
    by blast
  with u1 u2 u3 show ?thesis
    by (intro conjI)
qed

theorem loader_idempotent_witness:
  "build_vectorstore toy_embedding (processed_files example_bundle) empty_chroma
     = Inr (first_load, [])
   \<and> collection_count (first_load ''module_341_urinary_catheterization'') = 5
   \<and> map fst (first_load ''module_341_urinary_catheterization'')
       = [''7'', ''101'', ''102'', ''103'', ''42'']
   \<and> (\<exists>chroma2.
         build_vectorstore toy_embedding (processed_files example_bundle) first_load
           = Inr (chroma2, [CollectionExists 5, Upserting 5])
         \<and> (\<forall>name. collection_count (chroma2 name) = collection_count (first_load name))
         \<and> (\<forall>name k. collection_get (chroma2 name) k = collection_get (first_load name) k))
   \<and> ''101'' \<noteq> ''7''
   \<and> collection_get (upsert ''7'' (0::nat, ''text'', []) []) ''101'' = collection_get [] ''101''"
proof -
  have ne: "''101'' \<noteq> ''7''"
    by simp
  have "map_sum id snd
          (build_vectorstore toy_embedding (processed_files example_bundle) empty_chroma)
        = Inr []"
    by code_simp
  then have h: "build_vectorstore toy_embedding (processed_files example_bundle) empty_chroma
      = Inr (first_load, [])"
    by (cases "build_vectorstore toy_embedding (processed_files example_bundle) empty_chroma")
       (auto simp: first_load_def)
  have n: "collection_count (first_load ''module_341_urinary_catheterization'') = 5"
    by code_simp
  have keys: "map fst (first_load ''module_341_urinary_catheterization'')
       = [''7'', ''101'', ''102'', ''103'', ''42'']"
    by code_simp
  have w: "map_sum id snd
          (build_vectorstore toy_embedding (processed_files example_bundle) first_load)
        = Inr [CollectionExists 5, Upserting 5]"
    by code_simp
  note t = loader_idempotent
      [where fs' = "processed_files example_bundle" and i = "''7''" and j = "''101''"
         and e = "(0::nat, ''text'', [])" and c = "[]", OF h refl]
  from t ne
  have up: "collection_get (upsert ''7'' (0::nat, ''text'', []) []) ''101''
      = collection_get [] ''101''"
    by blast
  from t obtain chroma2 ws2
    where r: "build_vectorstore toy_embedding (processed_files example_bundle) first_load
        = Inr (chroma2, ws2)"
      and same: "\<forall>name. collection_count (chroma2 name) = collection_count (first_load name)"
        "\<forall>name k. collection_get (chroma2 name) k = collection_get (first_load name) k"
    by blast
  from r w have "ws2 = [CollectionExists 5, Upserting 5]"
    by simp
  with r same h n keys ne up show ?thesis
    by blast
qed

end
